theory Spec2Isabelle
  imports Complex_Main "HOL-Library.Log_Nat"
begin

section \<open>Values\<close>

text \<open>
  Amounts (\<open>balance\<close>, \<open>price\<close>) reach the handlers as JavaScript numbers, IEEE 754
  doubles. A finite double is written \<open>Num r\<close> with \<open>r\<close> its rational value (the two zeros
  are not told apart: nothing here divides); the other numbers are the two infinities
  and \<open>NaN\<close>.
\<close>

datatype number = Num rat | PosInf | NegInf | NaN

text \<open>
  \<open>fl x\<close> is the double nearest to the rational \<open>x\<close>, ties to the even significand: the
  result of an arithmetic operation whose exact value is \<open>x\<close>. The significand has 53
  bits, the least exponent of a unit in the last place is \<open>-1074\<close>, and a rounded
  magnitude of \<open>2 ^ 1024\<close> or more overflows to an infinity. \<open>ilog2 x\<close> is the integer part
  of the binary logarithm of a positive \<open>x\<close>.
\<close>

definition round_even :: "rat \<Rightarrow> int" where
  "round_even x =
     (let n = \<lfloor>x\<rfloor>; f = x - of_int n
      in if f < 1 / 2 then n else if 1 / 2 < f then n + 1 else if even n then n else n + 1)"

definition ilog2 :: "rat \<Rightarrow> int" where
  "ilog2 x =
     (case quotient_of x of (p, q) \<Rightarrow>
        let d = bitlen p - bitlen q in if 2 powi d \<le> x then d else d - 1)"

definition fl :: "rat \<Rightarrow> number" where
  "fl x =
     (if x = 0 then Num 0
      else
        let e = max (ilog2 \<bar>x\<bar> - 52) (- 1074);
            v = of_int (round_even (\<bar>x\<bar> / 2 powi e)) * 2 powi e
        in if 2 ^ 1024 \<le> v then (if 0 < x then PosInf else NegInf)
           else Num (if 0 < x then v else - v))"

text \<open>The operators the handlers use: \<^verbatim>\<open>+\<close>, \<^verbatim>\<open>-\<close> and \<^verbatim>\<open>>\<close> on numbers.\<close>

fun js_neg :: "number \<Rightarrow> number" where
  "js_neg (Num a) = Num (- a)"
| "js_neg PosInf = NegInf"
| "js_neg NegInf = PosInf"
| "js_neg NaN = NaN"

fun js_add :: "number \<Rightarrow> number \<Rightarrow> number" where
  "js_add (Num a) (Num b) = fl (a + b)"
| "js_add NaN _ = NaN"
| "js_add _ NaN = NaN"
| "js_add PosInf NegInf = NaN"
| "js_add NegInf PosInf = NaN"
| "js_add PosInf _ = PosInf"
| "js_add _ PosInf = PosInf"
| "js_add NegInf _ = NegInf"
| "js_add _ NegInf = NegInf"

definition js_sub :: "number \<Rightarrow> number \<Rightarrow> number" where
  "js_sub a b = js_add a (js_neg b)"

fun js_gt :: "number \<Rightarrow> number \<Rightarrow> bool" where
  "js_gt (Num a) (Num b) = (a > b)"
| "js_gt NaN _ = False"
| "js_gt _ NaN = False"
| "js_gt PosInf PosInf = False"
| "js_gt PosInf _ = True"
| "js_gt _ PosInf = False"
| "js_gt NegInf _ = False"
| "js_gt _ NegInf = True"

text \<open>
  A balance column holds a number or \<open>NULL\<close> (\<open>None\<close>). Writing \<open>NaN\<close> stores \<open>NULL\<close>; a
  \<open>NULL\<close> is read as \<^verbatim>\<open>null\<close>, which the three operators convert to 0.
\<close>

definition to_column :: "number \<Rightarrow> number option" where
  "to_column v = (if v = NaN then None else Some v)"

fun ToNumber :: "number option \<Rightarrow> number" where
  "ToNumber None = Num 0"
| "ToNumber (Some v) = v"

text \<open>A negative number: what a balance must never be.\<close>

fun negative :: "number \<Rightarrow> bool" where
  "negative (Num a) = (a < 0)"
| "negative NegInf = True"
| "negative _ = False"

type_synonym time = int

section \<open>The persistence layer\<close>

text \<open>
  The three tables, as the handlers read and write them through the object-relational
  mapper. \<open>paid\<close> and \<open>depositPaid\<close> are nullable booleans (the queries test \<open>IS NOT true\<close>,
  the handlers test truthiness), \<open>paymentDate\<close> is null until a job is paid, \<open>balance\<close> is a
  nullable number and \<open>price\<close> a finite number. Storage
  operations are taken to succeed; the exceptions a handler raises itself are modelled.
\<close>

datatype profile_type = Client | Contractor | Admin

datatype contract_status = New | In_progress | Terminated

record Profile =
  profile_id :: nat
  firstName :: string
  lastName :: string
  profession :: string
  balance :: "number option"
  ptype :: profile_type

record Contract =
  contract_id :: nat
  status :: contract_status
  ClientId :: nat
  ContractorId :: nat

record Job =
  job_id :: nat
  price :: rat
  paid :: "bool option"
  paymentDate :: "time option"
  depositPaid :: "bool option"
  ContractId :: nat

record store =
  Profiles :: "Profile list"
  Contracts :: "Contract list"
  Jobs :: "Job list"

text \<open>
  \<^verbatim>\<open>Profile.update({balance: b}, {where: {id: k}})\<close> rewrites every row with that id and
  resolves to the array \<^verbatim>\<open>[affectedCount]\<close>; \<^verbatim>\<open>job.update(values)\<close> rewrites the row of that job.
\<close>

definition Profile_update :: "number \<Rightarrow> nat \<Rightarrow> store \<Rightarrow> store" where
  "Profile_update b k st =
     st\<lparr>Profiles :=
          map (\<lambda>p. if profile_id p = k then p\<lparr>balance := to_column b\<rparr> else p) (Profiles st)\<rparr>"

definition affectedCount :: "nat \<Rightarrow> store \<Rightarrow> nat" where
  "affectedCount k st = length (filter (\<lambda>p. profile_id p = k) (Profiles st))"

definition Job_update :: "(Job \<Rightarrow> Job) \<Rightarrow> nat \<Rightarrow> store \<Rightarrow> store" where
  "Job_update f k st = st\<lparr>Jobs := map (\<lambda>j. if job_id j = k then f j else j) (Jobs st)\<rparr>"

text \<open>
  Eager loading. \<^verbatim>\<open>include: {model: Contract, where: w}\<close> joins a job with its contract
  (the row whose id is the job's \<open>ContractId\<close>) provided the contract satisfies \<open>w\<close>, and drops
  the job otherwise; a nested \<^verbatim>\<open>include: {model: Profile, as: ...}\<close> attaches the profile
  with the given id, or null.
\<close>

definition Contract_of :: "(Contract \<Rightarrow> bool) \<Rightarrow> store \<Rightarrow> Job \<Rightarrow> Contract option" where
  "Contract_of w st j = List.find (\<lambda>c. contract_id c = ContractId j \<and> w c) (Contracts st)"

definition Profile_of :: "store \<Rightarrow> nat \<Rightarrow> Profile option" where
  "Profile_of st k = List.find (\<lambda>p. profile_id p = k) (Profiles st)"

definition Job_of :: "store \<Rightarrow> nat \<Rightarrow> Job option" where
  "Job_of st k = List.find (\<lambda>j. job_id j = k) (Jobs st)"

definition balance_of :: "store \<Rightarrow> nat \<Rightarrow> number option option" where
  "balance_of st k = map_option balance (Profile_of st k)"

text \<open>A job loaded with \<open>Contract\<close>, \<open>Contract.Client\<close> and \<open>Contract.Contractor\<close>.\<close>

type_synonym loaded_job = "Job \<times> Contract \<times> Profile option \<times> Profile option"

definition load :: "store \<Rightarrow> Job \<Rightarrow> Contract \<Rightarrow> loaded_job" where
  "load st j c = (j, c, Profile_of st (ClientId c), Profile_of st (ContractorId c))"

section \<open>Responses\<close>

datatype js_error = TypeError

record best_client =
  entry_id :: nat
  fullName :: string
  entry_paid :: rat

datatype body =
    Message string
  | Error_message js_error
  | Contract_list "Contract list"
  | Job_list "(Job \<times> Contract) list"
  | Deposit_paid nat number nat
  | Best_profession string
  | Best_clients "best_client list"
  | No_body

text \<open>
  \<open>Message m\<close> is the body \<^verbatim>\<open>{message: m}\<close>; \<open>Error_message e\<close> is \<^verbatim>\<open>{message: error.message}\<close>
  for a caught exception \<open>e\<close>; \<open>Deposit_paid n p k\<close> is
  \<^verbatim>\<open>{message: 'Deposit paid', jobs: n, paid: p, totalJobsPaid: k}\<close>; \<open>No_body\<close> is \<^verbatim>\<open>.end()\<close>.
\<close>

datatype response = Response nat body

section \<open>Contract and job listings\<close>

text \<open>The ownership filter both listings build from \<^verbatim>\<open>req.profile\<close>.\<close>

definition owned_by :: "Profile \<Rightarrow> Contract \<Rightarrow> bool" where
  "owned_by profile c =
     (if ptype profile = Client then ClientId c = profile_id profile
      else ContractorId c = profile_id profile)"

definition get_contracts :: "Profile \<Rightarrow> store \<Rightarrow> response" where
  "get_contracts profile st =
     Response 200 (Contract_list
       (filter (\<lambda>c. status c \<noteq> Terminated \<and> owned_by profile c) (Contracts st)))"

definition get_jobs_unpaid :: "Profile \<Rightarrow> store \<Rightarrow> response" where
  "get_jobs_unpaid profile st =
     Response 200 (Job_list
       (List.map_filter
          (\<lambda>j. map_option (Pair j)
             (Contract_of (\<lambda>c. status c = In_progress \<and> owned_by profile c) st j))
          (filter (\<lambda>j. paid j \<noteq> Some True) (Jobs st))))"

section \<open>Paying a job\<close>

text \<open>
  \<^verbatim>\<open>POST /jobs/:job_id/pay\<close>. The query asks for the job with the given id whose contract
  has the caller as client, with both parties of the contract attached. The handler reads
  \<^verbatim>\<open>job.Contract\<close> before it tests \<^verbatim>\<open>!job\<close>: on a null result that read throws a
  TypeError, which the handler's \<^verbatim>\<open>catch\<close> answers with status 400 and the error's
  message, so the \<^verbatim>\<open>'No Job found'\<close> branch is never reached. Reading \<^verbatim>\<open>.balance\<close> of a
  party that is null throws in the same way. The two balance updates and the update of the
  job are issued in this order without being awaited; the model returns the store in which
  all three have been applied. \<open>now\<close> is the value of \<^verbatim>\<open>moment()\<close>.
\<close>

definition Job_findOne :: "nat \<Rightarrow> nat \<Rightarrow> store \<Rightarrow> loaded_job option" where
  "Job_findOne k caller st =
     (case List.map_filter
             (\<lambda>j. map_option (load st j) (Contract_of (\<lambda>c. ClientId c = caller) st j))
             (filter (\<lambda>j. job_id j = k) (Jobs st)) of
        [] \<Rightarrow> None
      | row # _ \<Rightarrow> Some row)"

definition pay :: "time \<Rightarrow> Profile \<Rightarrow> nat \<Rightarrow> store \<Rightarrow> response \<times> store" where
  "pay now profile k st =
     (case Job_findOne k (profile_id profile) st of
        None \<Rightarrow> (Response 400 (Error_message TypeError), st)
      | Some (job, c, client, contractor) \<Rightarrow>
          if paid job = Some True then (Response 400 (Message ''Job already paid''), st)
          else
            (case client of
               None \<Rightarrow> (Response 400 (Error_message TypeError), st)
             | Some cl \<Rightarrow>
                 if js_gt (Num (price job)) (ToNumber (balance cl))
                 then (Response 400 (Message ''Insufficient funds''), st)
                 else
                   (case contractor of
                      None \<Rightarrow> (Response 400 (Error_message TypeError), st)
                    | Some co \<Rightarrow>
                        let st1 = Profile_update
                                    (js_add (ToNumber (balance co)) (Num (price job)))
                                    (profile_id co) st;
                            st2 = Profile_update
                                    (js_sub (ToNumber (balance cl)) (Num (price job)))
                                    (profile_id profile) st1;
                            st3 = Job_update (\<lambda>j. j\<lparr>paid := Some True, paymentDate := Some now\<rparr>)
                                    (job_id job) st2
                        in (Response 200 (Message ''Paid successfully''), st3))))"

section \<open>Deposits\<close>

text \<open>
  \<^verbatim>\<open>POST /balances/deposit/:userId\<close>. The loop variable \<^verbatim>\<open>profile\<close> starts as
  \<^verbatim>\<open>req.profile\<close>; after the first deposit it is assigned what \<^verbatim>\<open>await Profile.update(...)\<close>
  resolves to, the array of the affected count. That array has no \<^verbatim>\<open>balance\<close>: the property
  reads \<^verbatim>\<open>undefined\<close>, which the comparison and the subtraction convert to \<open>NaN\<close>.
  Each job carries the contractor row loaded by the query, so the credit is computed from
  the balance the contractor had when the request began. \<^verbatim>\<open>(25 / 100)\<close> is the double
  0.25, and the deposit is its rounded product with the price.
\<close>

datatype profile_var = Request_profile Profile | Update_result nat

fun balance_read :: "profile_var \<Rightarrow> number" where
  "balance_read (Request_profile p) = ToNumber (balance p)"
| "balance_read (Update_result n) = NaN"

definition deposit_candidates :: "Profile \<Rightarrow> nat \<Rightarrow> store \<Rightarrow> loaded_job list" where
  "deposit_candidates profile userId st =
     List.map_filter
       (\<lambda>j. map_option (load st j)
          (Contract_of (\<lambda>c. ContractorId c = userId \<and> ClientId c = profile_id profile \<and>
                             status c \<noteq> Terminated) st j))
       (filter (\<lambda>j. paid j \<noteq> Some True \<and> depositPaid j \<noteq> Some True) (Jobs st))"

fun deposit_loop ::
  "nat \<Rightarrow> loaded_job list \<Rightarrow> profile_var \<Rightarrow> number \<Rightarrow> nat \<Rightarrow> store \<Rightarrow>
     (js_error + number \<times> nat) \<times> store"
where
  "deposit_loop caller [] profile totalPaid totalJobsPaid st =
     (Inr (totalPaid, totalJobsPaid), st)"
| "deposit_loop caller ((job, c, client, contractor) # rest) profile totalPaid totalJobsPaid st =
     (let depositAmount = fl ((25 / 100) * price job) in
      if js_gt depositAmount (balance_read profile)
      then deposit_loop caller rest profile totalPaid totalJobsPaid st
      else
        let st1 = Profile_update (js_sub (balance_read profile) depositAmount) caller st;
            profile' = Update_result (affectedCount caller st)
        in (case contractor of
              None \<Rightarrow> (Inl TypeError, st1)
            | Some co \<Rightarrow>
                let st2 = Profile_update (js_add (ToNumber (balance co)) depositAmount)
                            (profile_id co) st1;
                    st3 = Job_update (\<lambda>j. j\<lparr>depositPaid := Some True\<rparr>) (job_id job) st2
                in deposit_loop caller rest profile' (js_add totalPaid depositAmount)
                     (totalJobsPaid + 1) st3))"

definition deposit :: "Profile \<Rightarrow> nat \<Rightarrow> store \<Rightarrow> response \<times> store" where
  "deposit profile userId st =
     (let jobs = deposit_candidates profile userId st in
      if length jobs = 0 then (Response 400 (Message ''No Jobs to pay''), st)
      else
        (case deposit_loop (profile_id profile) jobs (Request_profile profile) (Num 0) 0 st of
           (Inl err, st') \<Rightarrow> (Response 400 (Error_message err), st')
         | (Inr (totalPaid, totalJobsPaid), st') \<Rightarrow>
             (Response 200 (Deposit_paid (length jobs) totalPaid totalJobsPaid), st')))"

section \<open>Date validation (src/utils.js)\<close>

text \<open>
  \<^verbatim>\<open>validateDate(date) = moment(date, ['MM-DD-YYYY'], true).isValid()\<close>.
  The third argument asks for strict parsing: the tokens \<open>MM\<close>, \<open>DD\<close> and \<open>YYYY\<close> match
  exactly two, two and four decimal digits, the separators match themselves, and no
  character of the input may be left over. The parsed fields then pass the library's
  overflow check: the month index (month minus one) lies in 0..11 and the day in
  1..daysInMonth(year, month index).
\<close>

definition is_digit :: "char \<Rightarrow> bool" where
  "is_digit c = (48 \<le> (of_char c :: nat) \<and> (of_char c :: nat) \<le> 57)"

definition toInt :: "string \<Rightarrow> int" where
  "toInt ds = foldl (\<lambda>n c. 10 * n + (int (of_char c) - 48)) 0 ds"

fun strict_MM_DD_YYYY :: "string \<Rightarrow> (int \<times> int \<times> int) option" where
  "strict_MM_DD_YYYY [m1, m2, s1, d1, d2, s2, y1, y2, y3, y4] =
     (if is_digit m1 \<and> is_digit m2 \<and> s1 = CHR ''-'' \<and> is_digit d1 \<and> is_digit d2 \<and>
         s2 = CHR ''-'' \<and> is_digit y1 \<and> is_digit y2 \<and> is_digit y3 \<and> is_digit y4
      then Some (toInt [m1, m2] - 1, toInt [d1, d2], toInt [y1, y2, y3, y4])
      else None)"
| "strict_MM_DD_YYYY _ = None"

definition isLeapYear :: "int \<Rightarrow> bool" where
  "isLeapYear year = ((year mod 4 = 0 \<and> year mod 100 \<noteq> 0) \<or> year mod 400 = 0)"

definition daysInMonth :: "int \<Rightarrow> int \<Rightarrow> int" where
  "daysInMonth year month =
     (let modMonth = month mod 12;
          year' = year + (month - modMonth) div 12
      in if modMonth = 1 then (if isLeapYear year' then 29 else 28)
         else 31 - ((modMonth mod 7) mod 2))"

definition overflow :: "int \<times> int \<times> int \<Rightarrow> bool" where
  "overflow a = (case a of (month, date, year) \<Rightarrow>
     (if month < 0 \<or> month > 11 then True
      else date < 1 \<or> date > daysInMonth year month))"

definition validateDate :: "string \<Rightarrow> bool" where
  "validateDate date =
     (case strict_MM_DD_YYYY date of None \<Rightarrow> False | Some a \<Rightarrow> \<not> overflow a)"

subsection \<open>The specification's reading of a valid date\<close>

text \<open>
  Following the specification's words: a string is accepted when it is the strict
  \<open>MM-DD-YYYY\<close> rendering (two-digit month, two-digit day, four-digit year, zero padded,
  joined by dashes) of a valid calendar date, with the usual month lengths.
\<close>

definition spec_leap_year :: "nat \<Rightarrow> bool" where
  "spec_leap_year y = (if 400 dvd y then True else if 100 dvd y then False else 4 dvd y)"

definition spec_month_length :: "nat \<Rightarrow> nat \<Rightarrow> nat" where
  "spec_month_length y m =
     (if m = 2 then (if spec_leap_year y then 29 else 28)
      else if m \<in> {4, 6, 9, 11} then 30 else 31)"

definition spec_calendar_date :: "nat \<Rightarrow> nat \<Rightarrow> nat \<Rightarrow> bool" where
  "spec_calendar_date y m d =
     (1 \<le> m \<and> m \<le> 12 \<and> 1 \<le> d \<and> d \<le> spec_month_length y m \<and> y \<le> 9999)"

definition digit_char :: "nat \<Rightarrow> char" where
  "digit_char n = char_of (48 + n mod 10)"

definition spec_render :: "nat \<Rightarrow> nat \<Rightarrow> nat \<Rightarrow> string" where
  "spec_render y m d =
     [digit_char (m div 10), digit_char m, CHR ''-'',
      digit_char (d div 10), digit_char d, CHR ''-'',
      digit_char (y div 1000), digit_char (y div 100), digit_char (y div 10), digit_char y]"

section \<open>Reports\<close>

text \<open>
  Both reports read \<^verbatim>\<open>req.query.start\<close> and \<^verbatim>\<open>req.query.end\<close>, absent (\<open>None\<close>) or a
  string; a value is truthy when it is present and not empty. \<^verbatim>\<open>moment(x, 'MM-DD-YYYY')\<close>,
  the library's forgiving parser, is a parameter \<open>moment_of\<close> of the model: it yields a
  point in time or an invalid moment. The store compares the dates as rendered text, in
  which an invalid moment sorts after every date: an invalid upper bound admits every
  date from the lower bound on, an invalid lower bound admits none.
\<close>

datatype moment = Valid time | Invalid

fun between :: "moment \<Rightarrow> moment \<Rightarrow> time \<Rightarrow> bool" where
  "between (Valid a) (Valid b) t = (a \<le> t \<and> t \<le> b)"
| "between (Valid a) Invalid t = (a \<le> t)"
| "between Invalid _ t = False"

definition paid_between :: "moment \<Rightarrow> moment \<Rightarrow> Job \<Rightarrow> bool" where
  "paid_between start end j =
     (paid j = Some True \<and> (case paymentDate j of None \<Rightarrow> False | Some t \<Rightarrow> between start end t))"

text \<open>
  \<^verbatim>\<open>GET /admin/best-profession\<close>. The nested, grouped query is the mapper's; its result,
  a list of profiles, is the parameter \<open>findAll\<close>.
\<close>

definition best_profession ::
  "(string option \<Rightarrow> moment) \<Rightarrow> (time \<Rightarrow> time \<Rightarrow> store \<Rightarrow> Profile list) \<Rightarrow>
     string option \<Rightarrow> string option \<Rightarrow> store \<Rightarrow> response" where
  "best_profession moment_of findAll start end st =
     (case start of
        None \<Rightarrow> Response 404 No_body
      | Some s \<Rightarrow>
          if s \<noteq> [] \<and> s \<noteq> [] then
            if \<not> validateDate s \<or> \<not> validateDate s
            then Response 400 (Message ''Invalid dates, please use the format MM-DD-YYYY'')
            else
              (case (moment_of start, moment_of end) of
                 (Valid a, Valid b) \<Rightarrow>
                   (case findAll a b st of
                      [] \<Rightarrow> Response 404 No_body
                    | p # _ \<Rightarrow> Response 200 (Best_profession (profession p)))
               | _ \<Rightarrow> Response 404 No_body)
          else Response 404 No_body)"

text \<open>
  \<^verbatim>\<open>GET /admin/best-clients\<close>. The query keeps the paid jobs whose payment date lies in
  the range, groups them by \<^verbatim>\<open>price\<close>, adds \<^verbatim>\<open>SUM(price) AS total\<close> to each group, orders
  the groups by \<^verbatim>\<open>price\<close> descending and keeps the first \<open>limit\<close>. A group is reported
  through one of its rows (the store picks it; the model takes the first), with the
  contract and client of that row attached.
\<close>

definition group_by_price :: "Job list \<Rightarrow> (Job \<times> rat) list" where
  "group_by_price js =
     List.map_filter
       (\<lambda>p. map_option (\<lambda>j. (j, sum_list (map price (filter (\<lambda>x. price x = p) js))))
          (List.find (\<lambda>x. price x = p) js))
       (remdups (map price js))"

definition order_by_price_desc :: "(Job \<times> rat) list \<Rightarrow> (Job \<times> rat) list" where
  "order_by_price_desc rows = rev (sort_key (\<lambda>row. price (fst row)) rows)"

fun client_entry :: "store \<Rightarrow> Job \<times> rat \<Rightarrow> js_error + best_client" where
  "client_entry st (j, tot) =
     (case Contract_of (\<lambda>c. True) st j of
        None \<Rightarrow> Inl TypeError
      | Some c \<Rightarrow>
          (case Profile_of st (ClientId c) of
             None \<Rightarrow> Inl TypeError
           | Some client \<Rightarrow>
               Inr \<lparr>entry_id = profile_id client,
                    fullName = firstName client @ '' '' @ lastName client,
                    entry_paid = tot\<rparr>))"

fun map_rows :: "('a \<Rightarrow> js_error + 'b) \<Rightarrow> 'a list \<Rightarrow> js_error + 'b list" where
  "map_rows f [] = Inr []"
| "map_rows f (x # xs) =
     (case f x of
        Inl e \<Rightarrow> Inl e
      | Inr y \<Rightarrow> (case map_rows f xs of Inl e \<Rightarrow> Inl e | Inr ys \<Rightarrow> Inr (y # ys)))"

definition best_clients ::
  "(string option \<Rightarrow> moment) \<Rightarrow> string option \<Rightarrow> string option \<Rightarrow> nat option \<Rightarrow> store \<Rightarrow> response"
where
  "best_clients moment_of start end limit_param st =
     (case start of
        None \<Rightarrow> Response 400 (Message ''Start / end dates required'')
      | Some s \<Rightarrow>
          if s \<noteq> [] \<and> s \<noteq> [] then
            if \<not> validateDate s \<or> \<not> validateDate s
            then Response 400 (Message ''Invalid dates, please use the format MM-DD-YYYY'')
            else
              let limit = (case limit_param of None \<Rightarrow> 2 | Some n \<Rightarrow> n);
                  jobs = take limit (order_by_price_desc (group_by_price
                           (filter (paid_between (moment_of start) (moment_of end)) (Jobs st))))
              in (case map_rows (client_entry st) jobs of
                    Inl err \<Rightarrow> Response 400 (Error_message err)
                  | Inr entries \<Rightarrow> Response 200 (Best_clients entries))
          else Response 400 (Message ''Start / end dates required''))"

section \<open>Example data\<close>

text \<open>Small stores on which the theorems below are exercised.\<close>

definition client_profile :: "nat \<Rightarrow> string \<Rightarrow> string \<Rightarrow> number option \<Rightarrow> Profile" where
  "client_profile k fname lname b =
     \<lparr>profile_id = k, firstName = fname, lastName = lname, profession = ''Wizard'',
      balance = b, ptype = Client\<rparr>"

definition contractor_profile :: "nat \<Rightarrow> number option \<Rightarrow> Profile" where
  "contractor_profile k b =
     \<lparr>profile_id = k, firstName = ''Linus'', lastName = ''Torvalds'',
      profession = ''Programmer'', balance = b, ptype = Contractor\<rparr>"

definition contract :: "nat \<Rightarrow> contract_status \<Rightarrow> nat \<Rightarrow> nat \<Rightarrow> Contract" where
  "contract k s client contractor =
     \<lparr>contract_id = k, status = s, ClientId = client, ContractorId = contractor\<rparr>"

definition unpaid_job :: "nat \<Rightarrow> rat \<Rightarrow> nat \<Rightarrow> Job" where
  "unpaid_job k p c =
     \<lparr>job_id = k, price = p, paid = None, paymentDate = None, depositPaid = None,
      ContractId = c\<rparr>"

definition paid_job :: "nat \<Rightarrow> rat \<Rightarrow> nat \<Rightarrow> time \<Rightarrow> Job" where
  "paid_job k p c t =
     \<lparr>job_id = k, price = p, paid = Some True, paymentDate = Some t, depositPaid = None,
      ContractId = c\<rparr>"

text \<open>
  Client 1 has three contracts with contractor 2: one in progress (jobs 1, unpaid, and 2,
  paid), one terminated (job 3) and one new (job 4); client 3 has one in progress (job 5).
\<close>

definition listing_store :: store where
  "listing_store =
     \<lparr>Profiles = [client_profile 1 ''Harry'' ''Potter'' (Some (Num 100)), contractor_profile 2 (Some (Num 10)),
                  client_profile 3 ''Ash'' ''Ketchum'' (Some (Num 5))],
      Contracts = [contract 1 In_progress 1 2, contract 2 Terminated 1 2, contract 3 New 1 2,
                   contract 4 In_progress 3 2],
      Jobs = [unpaid_job 1 200 1, paid_job 2 50 1 1597518686737, unpaid_job 3 30 2,
              unpaid_job 4 40 3, unpaid_job 5 60 4]\<rparr>"

text \<open>
  Client 1, with balance \<open>b\<close>, has one contract in progress with contractor 2 (balance 10)
  and three unpaid jobs of price 100 under it.
\<close>

definition deposit_store :: "number option \<Rightarrow> store" where
  "deposit_store b =
     \<lparr>Profiles = [client_profile 1 ''Harry'' ''Potter'' b, contractor_profile 2 (Some (Num 10))],
      Contracts = [contract 1 In_progress 1 2],
      Jobs = [unpaid_job 1 100 1, unpaid_job 2 100 1, unpaid_job 3 100 1]\<rparr>"

text \<open>
  Client 1 (balance 150) has one contract in progress with contractor 2 (balance 10), with
  two unpaid jobs of prices 100 and 200.
\<close>

definition pay_store :: store where
  "pay_store =
     \<lparr>Profiles = [client_profile 1 ''Harry'' ''Potter'' (Some (Num 150)), contractor_profile 2 (Some (Num 10))],
      Contracts = [contract 1 In_progress 1 2],
      Jobs = [unpaid_job 1 100 1, unpaid_job 2 200 1]\<rparr>"

text \<open>
  Two clients with jobs paid in August 2020: client 1 paid two jobs of 250 (total 500),
  client 3 paid one job of 300. \<open>report_moment\<close> reads the two bounds of the year 2020.
\<close>

definition report_store :: store where
  "report_store =
     \<lparr>Profiles = [client_profile 1 ''Harry'' ''Potter'' (Some (Num 100)), contractor_profile 2 (Some (Num 10)),
                  client_profile 3 ''Ash'' ''Ketchum'' (Some (Num 5))],
      Contracts = [contract 1 In_progress 1 2, contract 2 In_progress 3 2],
      Jobs = [paid_job 1 250 1 1597518686737, paid_job 2 250 1 1597605086737,
              paid_job 3 300 2 1597691486737]\<rparr>"

definition report_moment :: "string option \<Rightarrow> moment" where
  "report_moment q =
     (if q = Some ''01-01-2020'' then Valid 1577836800000
      else if q = Some ''12-31-2020'' then Valid 1609372800000
      else Invalid)"

text \<open>Client 1 is both the client and the contractor of its contract.\<close>

definition same_party_store :: store where
  "same_party_store =
     \<lparr>Profiles = [client_profile 1 ''Harry'' ''Potter'' (Some (Num 150))],
      Contracts = [contract 1 In_progress 1 1],
      Jobs = [unpaid_job 1 100 1]\<rparr>"

text \<open>
  The doubles nearest to 0.1, 0.2 and 0.3, and a store with amounts in cents: client 1
  has balance 0.3, contractor 2 has balance 0.2, the job costs 0.1.
\<close>

definition double_0_1 :: rat where
  "double_0_1 = 3602879701896397 / 36028797018963968"

definition double_0_2 :: rat where
  "double_0_2 = 3602879701896397 / 18014398509481984"

definition double_0_3 :: rat where
  "double_0_3 = 5404319552844595 / 18014398509481984"

definition cents_store :: store where
  "cents_store =
     \<lparr>Profiles = [client_profile 1 ''Harry'' ''Potter'' (Some (Num double_0_3)),
                  contractor_profile 2 (Some (Num double_0_2))],
      Contracts = [contract 1 In_progress 1 2],
      Jobs = [unpaid_job 1 double_0_1 1]\<rparr>"

text \<open>A job with a negative price: client 1 has balance 40, contractor 2 has balance 10.\<close>

definition negative_price_store :: store where
  "negative_price_store =
     \<lparr>Profiles = [client_profile 1 ''Harry'' ''Potter'' (Some (Num 40)),
                  contractor_profile 2 (Some (Num 10))],
      Contracts = [contract 1 In_progress 1 2],
      Jobs = [unpaid_job 1 (- 100) 1]\<rparr>"

section \<open>Conditions on stores\<close>

text \<open>
  The data model links each contract to one client profile and one contractor profile,
  two different profiles, and gives every job a price that is not negative. Neither is
  checked by a handler.
\<close>

definition parties_distinct :: "store \<Rightarrow> bool" where
  "parties_distinct st = (\<forall>c\<in>set (Contracts st). ClientId c \<noteq> ContractorId c)"

definition prices_not_negative :: "store \<Rightarrow> bool" where
  "prices_not_negative st = list_all (\<lambda>j. 0 \<le> price j) (Jobs st)"

text \<open>No balance is negative, as the handlers read it (a \<open>NULL\<close> balance reads as 0).\<close>

definition no_negative_balance :: "store \<Rightarrow> bool" where
  "no_negative_balance st = list_all (\<lambda>p. \<not> negative (ToNumber (balance p))) (Profiles st)"

section \<open>Sequences of payments and deposits\<close>

text \<open>
  Modelled from the spec: the profile-resolution middleware \<^verbatim>\<open>getProfile\<close> (not under src/)
  maps a request to the caller's profile, a row of the store, which the handler then
  finds in \<^verbatim>\<open>req.profile\<close>; a request without such a profile is rejected before the
  handler runs.
\<close>

definition getProfile :: "store \<Rightarrow> nat \<Rightarrow> Profile option" where
  "getProfile st caller = Profile_of st caller"

text \<open>
  A request is a payment (the current time, the caller, the job) or a deposit (the
  caller, the contractor); \<open>run\<close> serves a list of requests one after the other.
\<close>

datatype request = Pay time nat nat | Deposit nat nat

fun step :: "request \<Rightarrow> store \<Rightarrow> store" where
  "step (Pay now caller k) st =
     (case getProfile st caller of
        None \<Rightarrow> st
      | Some profile \<Rightarrow> snd (pay now profile k st))"
| "step (Deposit caller userId) st =
     (case getProfile st caller of
        None \<Rightarrow> st
      | Some profile \<Rightarrow> snd (deposit profile userId st))"

fun run :: "request list \<Rightarrow> store \<Rightarrow> store" where
  "run [] st = st"
| "run (r # rs) st = run rs (step r st)"

section \<open>Properties of the arithmetic\<close>

lemma round_even_nonneg: "0 \<le> x \<Longrightarrow> 0 \<le> round_even x"
  by (auto simp: round_even_def Let_def)

lemma round_even_of_int [simp]: "round_even (of_int m) = m"
  by (simp add: round_even_def)

text \<open>Rounding keeps the sign.\<close>

lemma fl_not_negative:
  assumes "0 \<le> x"
  shows "\<not> negative (fl x)"
proof (cases "x = 0")
  case True
  then show ?thesis by (simp add: fl_def)
next
  case False
  with assms have pos: "0 < x" by simp
  define e where "e = max (ilog2 \<bar>x\<bar> - 52) (- 1074)"
  have p: "(0::rat) < 2 powi e" by simp
  with pos have "0 \<le> \<bar>x\<bar> / 2 powi e" by simp
  then have "0 \<le> round_even (\<bar>x\<bar> / 2 powi e)" by (rule round_even_nonneg)
  with p have "0 \<le> of_int (round_even (\<bar>x\<bar> / 2 powi e)) * (2::rat) powi e" by simp
  with pos False show ?thesis by (simp add: fl_def Let_def e_def)
qed

text \<open>Whole numbers below \<open>2 ^ 53\<close> are doubles: an operation with such a result is exact.\<close>

lemma ilog2_of_int_le:
  assumes "0 < n" "n < 2 ^ 53"
  shows "ilog2 (of_int n) \<le> 52"
proof -
  from assms(2) have "bitlen n \<le> 53" by (simp add: bitlen_le_iff_power)
  moreover have "bitlen 1 = 1" by (simp add: bitlen_alt_def)
  moreover have "quotient_of (of_int n :: rat) = (n, 1)"
    by (metis Rat.of_int_def quotient_of_int)
  ultimately show ?thesis by (simp add: ilog2_def Let_def)
qed

lemma fl_pos_int:
  assumes "0 < n" "n < 2 ^ 53"
  shows "fl (of_int n) = Num (of_int n)"
proof -
  define e where "e = max (ilog2 \<bar>of_int n :: rat\<bar> - 52) (- 1074)"
  from assms have "\<bar>of_int n :: rat\<bar> = of_int n" by simp
  with ilog2_of_int_le [OF assms] have "e \<le> 0" by (simp add: e_def)
  then obtain k where k: "e = - int k" by (metis nat_0_le neg_le_0_iff_le minus_minus)
  have pw: "(2::rat) powi e = 1 / 2 ^ k" by (simp add: k power_int_minus_divide)
  have "\<bar>of_int n :: rat\<bar> / 2 powi e = of_int (n * 2 ^ k)"
    using assms(1) by (simp add: pw)
  then have r: "round_even (\<bar>of_int n :: rat\<bar> / 2 powi e) = n * 2 ^ k"
    by (simp only: round_even_of_int)
  have v: "of_int (n * 2 ^ k) * (2::rat) powi e = of_int n" by (simp add: pw)
  have "(of_int n :: rat) < 2 ^ 53" using assms(2)
    by (metis of_int_less_numeral_power_cancel_iff)
  also have "\<dots> \<le> (2::rat) ^ 1024" by (rule power_increasing) simp_all
  finally have small: "\<not> (2::rat) ^ 1024 \<le> of_int n" by simp
  from assms(1) have nz: "(of_int n :: rat) \<noteq> 0" "(0::rat) < of_int n" by simp_all
  show ?thesis
    unfolding fl_def Let_def e_def [symmetric] r v using nz small by simp
qed

lemma fl_numeral [simp]:
  "numeral w < (2::int) ^ 53 \<Longrightarrow> fl (numeral w) = Num (numeral w)"
  using fl_pos_int [of "numeral w"] by simp

lemma fl_zero [simp]: "fl 0 = Num 0"
  by (simp add: fl_def)

lemma js_sub_Num [simp]: "js_sub (Num a) (Num b) = fl (a - b)"
  by (simp add: js_sub_def)

lemma js_gt_NaN [simp]: "js_gt a NaN = False"
  by (cases a) simp_all

lemma js_add_NaN [simp]: "js_add a NaN = NaN"
  by (cases a) simp_all

lemma js_sub_NaN [simp]: "js_sub NaN b = NaN"
  by (simp add: js_sub_def)

text \<open>Sums of amounts that are not negative, and differences the handlers' guard admits.\<close>

lemma js_add_not_negative:
  assumes "\<not> negative a" "\<not> negative b"
  shows "\<not> negative (js_add a b)"
proof (cases a)
  case (Num x)
  with assms show ?thesis by (cases b) (simp_all add: fl_not_negative)
next
  case PosInf
  with assms show ?thesis by (cases b) simp_all
next
  case NegInf
  with assms show ?thesis by simp
next
  case NaN
  then show ?thesis by simp
qed

lemma js_sub_not_negative:
  assumes "\<not> negative c" "\<not> negative d" "\<not> js_gt d c"
  shows "\<not> negative (js_sub c d)"
proof (cases c)
  case (Num x)
  with assms show ?thesis by (cases d) (simp_all add: fl_not_negative js_sub_def)
next
  case PosInf
  with assms show ?thesis by (cases d) (simp_all add: js_sub_def)
next
  case NegInf
  with assms show ?thesis by simp
next
  case NaN
  then show ?thesis by (simp add: js_sub_def)
qed

lemma ToNumber_to_column_not_negative:
  "\<not> negative v \<Longrightarrow> \<not> negative (ToNumber (to_column v))"
  by (simp add: to_column_def)

section \<open>Properties of date validation\<close>

lemma validateDate_examples:
  "\<not> validateDate ''13-01-2020''" "validateDate ''02-29-2020''" "\<not> validateDate ''02-29-2021''"
  by (simp_all add: validateDate_def overflow_def daysInMonth_def isLeapYear_def is_digit_def
      toInt_def)

subsection \<open>Digits\<close>

lemma of_char_digit_char: "of_char (digit_char n) = (48 + n mod 10 :: nat)"
  by (simp add: digit_char_def)

lemma is_digit_digit_char: "is_digit (digit_char n)"
  by (simp add: is_digit_def of_char_digit_char)

lemma digit_char_of_char:
  assumes "is_digit c"
  shows "digit_char (of_char c - 48) = c"
proof -
  define x where "x = (of_char c :: nat)"
  from assms have "48 \<le> x" "x \<le> 57"
    by (simp_all add: is_digit_def x_def)
  then have "x - 48 < 10" by simp
  then have "(x - 48) mod 10 = x - 48" by simp
  with \<open>48 \<le> x\<close> have "48 + (x - 48) mod 10 = x" by simp
  then have "char_of (48 + (x - 48) mod 10) = (char_of x :: char)" by simp
  then show ?thesis by (simp add: digit_char_def x_def)
qed

lemma digit_value:
  assumes "is_digit c"
  shows "\<exists>v. v < 10 \<and> int (of_char c) - 48 = int v \<and> c = digit_char v"
proof -
  from assms have "48 \<le> (of_char c :: nat)" "(of_char c :: nat) \<le> 57"
    by (simp_all add: is_digit_def)
  then have "(of_char c :: nat) - 48 < 10" "int (of_char c) - 48 = int (of_char c - 48)"
    by simp_all
  with digit_char_of_char [OF assms] show ?thesis by metis
qed

lemma toInt2: "toInt [a, b] = 10 * (int (of_char a) - 48) + (int (of_char b) - 48)"
  by (simp add: toInt_def)

lemma toInt4:
  "toInt [a, b, c, d] =
     1000 * (int (of_char a) - 48) + 100 * (int (of_char b) - 48) + 10 * (int (of_char c) - 48)
       + (int (of_char d) - 48)"
  by (simp add: toInt_def)

lemma two_digits:
  assumes "m < 100"
  shows "10 * (m div 10 mod 10) + m mod 10 = (m::nat)"
proof -
  have "m = m mod (10 * 10)" using assms by simp
  also have "\<dots> = 10 * (m div 10 mod 10) + m mod 10" by (rule mod_mult2_eq)
  finally show ?thesis by (rule sym)
qed

lemma four_digits:
  assumes "y < 10000"
  shows "1000 * (y div 1000 mod 10) + 100 * (y div 100 mod 10) + 10 * (y div 10 mod 10)
           + y mod 10 = (y::nat)"
proof -
  let ?h = "10 * (10 * (10 * (y div 1000 mod 10) + y div 100 mod 10) + y div 10 mod 10)
              + y mod 10"
  have a: "y div 100 mod (10 * 10) = 10 * (y div 100 div 10 mod 10) + y div 100 mod 10"
    by (rule mod_mult2_eq)
  have b: "y div 10 mod (10 * 100) = 10 * (y div 10 div 10 mod 100) + y div 10 mod 10"
    by (rule mod_mult2_eq)
  have c: "y mod (10 * 1000) = 10 * (y div 10 mod 1000) + y mod 10"
    by (rule mod_mult2_eq)
  have d: "y div 10 div 10 = y div 100" "y div 100 div 10 = y div 1000"
    by (simp_all add: div_mult2_eq)
  have "y = y mod (10 * 1000)" using assms by simp
  also have "\<dots> = ?h" using a b c d by simp
  finally have "y = ?h" .
  then have f: "?h = y" by (rule sym)
  have e: "?h = 1000 * (y div 1000 mod 10) + 100 * (y div 100 mod 10) + 10 * (y div 10 mod 10)
                + y mod 10"
    by (simp only: distrib_left mult.assoc [symmetric])
  show ?thesis unfolding e [symmetric] by (rule f)
qed

lemma last_digit:
  fixes k c :: nat
  assumes "c < 10"
  shows "(10 * k + c) div 10 = k" "(10 * k + c) mod 10 = c"
  using assms by simp_all

lemma horner_digits:
  fixes c1 c2 c3 c4 :: nat
  assumes "c1 < 10" "c2 < 10" "c3 < 10" "c4 < 10"
  defines "y \<equiv> 10 * (10 * (10 * c1 + c2) + c3) + c4"
  shows "y div 1000 mod 10 = c1" "y div 100 mod 10 = c2" "y div 10 mod 10 = c3" "y mod 10 = c4"
    "y < 10000"
proof -
  have d1: "y div 10 = 10 * (10 * c1 + c2) + c3"
    unfolding y_def by (rule last_digit(1) [OF assms(4)])
  have "y div 100 = y div 10 div 10" by (simp add: div_mult2_eq)
  also have "\<dots> = 10 * c1 + c2"
    unfolding d1 by (rule last_digit(1) [OF assms(3)])
  finally have d2: "y div 100 = 10 * c1 + c2" .
  have "y div 1000 = y div 100 div 10" by (simp add: div_mult2_eq)
  also have "\<dots> = c1"
    unfolding d2 by (rule last_digit(1) [OF assms(2)])
  finally have d3: "y div 1000 = c1" .
  show "y div 1000 mod 10 = c1" unfolding d3 using assms(1) by simp
  show "y div 100 mod 10 = c2" unfolding d2 by (rule last_digit(2) [OF assms(2)])
  show "y div 10 mod 10 = c3" unfolding d1 by (rule last_digit(2) [OF assms(3)])
  show "y mod 10 = c4" unfolding y_def by (rule last_digit(2) [OF assms(4)])
  show "y < 10000" using assms by (simp add: y_def)
qed

subsection \<open>Parsing a rendered date, rendering a parsed one\<close>

lemma strict_render:
  assumes "m < 100" "d < 100" "y < 10000"
  shows "strict_MM_DD_YYYY (spec_render y m d) = Some (int m - 1, int d, int y)"
proof -
  have "toInt [digit_char (m div 10), digit_char m] = int (10 * (m div 10 mod 10) + m mod 10)"
    by (simp add: toInt2 of_char_digit_char)
  then have m: "toInt [digit_char (m div 10), digit_char m] = int m"
    by (simp only: two_digits [OF assms(1)])
  have "toInt [digit_char (d div 10), digit_char d] = int (10 * (d div 10 mod 10) + d mod 10)"
    by (simp add: toInt2 of_char_digit_char)
  then have d: "toInt [digit_char (d div 10), digit_char d] = int d"
    by (simp only: two_digits [OF assms(2)])
  have "toInt [digit_char (y div 1000), digit_char (y div 100), digit_char (y div 10),
               digit_char y] =
      int (1000 * (y div 1000 mod 10) + 100 * (y div 100 mod 10) + 10 * (y div 10 mod 10)
             + y mod 10)"
    by (simp add: toInt4 of_char_digit_char)
  then have y: "toInt [digit_char (y div 1000), digit_char (y div 100), digit_char (y div 10),
                       digit_char y] = int y"
    by (simp only: four_digits [OF assms(3)])
  show ?thesis
    unfolding spec_render_def strict_MM_DD_YYYY.simps m d y
    by (simp add: is_digit_digit_char)
qed

lemma render_strict:
  assumes "strict_MM_DD_YYYY s = Some (mi, d, y)"
  shows "\<exists>m' d' y'. m' < 100 \<and> d' < 100 \<and> y' < 10000 \<and> mi = int m' - 1 \<and> d = int d' \<and>
           y = int y' \<and> s = spec_render y' m' d'"
proof -
  from assms obtain m1 m2 s1 d1 d2 s2 y1 y2 y3 y4
    where s: "s = [m1, m2, s1, d1, d2, s2, y1, y2, y3, y4]"
    by (cases s rule: strict_MM_DD_YYYY.cases) simp_all
  from assms have dg: "is_digit m1" "is_digit m2" "is_digit d1" "is_digit d2"
      "is_digit y1" "is_digit y2" "is_digit y3" "is_digit y4"
    and sep: "s1 = CHR ''-''" "s2 = CHR ''-''"
    and val: "mi = toInt [m1, m2] - 1" "d = toInt [d1, d2]" "y = toInt [y1, y2, y3, y4]"
    unfolding s by (simp_all split: if_splits)
  obtain a1 where a1: "a1 < 10" "int (of_char m1) - 48 = int a1" "m1 = digit_char a1"
    using digit_value [OF dg(1)] by blast
  obtain a2 where a2: "a2 < 10" "int (of_char m2) - 48 = int a2" "m2 = digit_char a2"
    using digit_value [OF dg(2)] by blast
  obtain b1 where b1: "b1 < 10" "int (of_char d1) - 48 = int b1" "d1 = digit_char b1"
    using digit_value [OF dg(3)] by blast
  obtain b2 where b2: "b2 < 10" "int (of_char d2) - 48 = int b2" "d2 = digit_char b2"
    using digit_value [OF dg(4)] by blast
  obtain c1 where c1: "c1 < 10" "int (of_char y1) - 48 = int c1" "y1 = digit_char c1"
    using digit_value [OF dg(5)] by blast
  obtain c2 where c2: "c2 < 10" "int (of_char y2) - 48 = int c2" "y2 = digit_char c2"
    using digit_value [OF dg(6)] by blast
  obtain c3 where c3: "c3 < 10" "int (of_char y3) - 48 = int c3" "y3 = digit_char c3"
    using digit_value [OF dg(7)] by blast
  obtain c4 where c4: "c4 < 10" "int (of_char y4) - 48 = int c4" "y4 = digit_char c4"
    using digit_value [OF dg(8)] by blast
  let ?m = "10 * a1 + a2" and ?d = "10 * b1 + b2"
  let ?y = "10 * (10 * (10 * c1 + c2) + c3) + c4"
  note hd = horner_digits [OF c1(1) c2(1) c3(1) c4(1)]
  have bm: "?m < 100" using a1(1) a2(1) by simp
  have bd: "?d < 100" using b1(1) b2(1) by simp
  have bY: "?y < 10000" by (rule hd(5))
  have vm: "mi = int ?m - 1" unfolding val toInt2 a1(2) a2(2) by simp
  have vd: "d = int ?d" unfolding val toInt2 b1(2) b2(2) by simp
  have vy: "y = int ?y" unfolding val toInt4 c1(2) c2(2) c3(2) c4(2) by simp
  have ry: "digit_char (?y div 1000) = y1" "digit_char (?y div 100) = y2"
      "digit_char (?y div 10) = y3" "digit_char ?y = y4"
    unfolding c1(3) c2(3) c3(3) c4(3) digit_char_def hd(1-4)
    using c1(1) c2(1) c3(1) c4(1) by simp_all
  have rm: "digit_char (?m div 10) = m1" "digit_char ?m = m2"
    using a1(1) a2(1) unfolding a1(3) a2(3) by (simp_all add: digit_char_def)
  have rd: "digit_char (?d div 10) = d1" "digit_char ?d = d2"
    using b1(1) b2(1) unfolding b1(3) b2(3) by (simp_all add: digit_char_def)
  have "s = spec_render ?y ?m ?d"
    unfolding spec_render_def rm rd ry s sep by (rule refl)
  with bm bd bY vm vd vy show ?thesis by blast
qed

subsection \<open>The library's month lengths are the calendar's\<close>

lemma int_mod_zero_dvd: "(int y mod int k = 0) = (k dvd y)"
proof -
  have "int y mod int k = int (y mod k)" by (simp add: zmod_int)
  then show ?thesis by (simp add: dvd_eq_mod_eq_0)
qed

lemma isLeapYear_spec: "isLeapYear (int y) = spec_leap_year y"
proof -
  have a: "(int y mod 4 = 0) = (4 dvd y)" using int_mod_zero_dvd [of y 4] by simp
  have b: "(int y mod 100 = 0) = (100 dvd y)" using int_mod_zero_dvd [of y 100] by simp
  have c: "(int y mod 400 = 0) = (400 dvd y)" using int_mod_zero_dvd [of y 400] by simp
  have "(100::nat) dvd 400" by simp
  then have d: "400 dvd y \<Longrightarrow> 100 dvd y" using dvd_trans by blast
  have "(4::nat) dvd 100" by simp
  then have e: "100 dvd y \<Longrightarrow> 4 dvd y" using dvd_trans by blast
  show ?thesis unfolding isLeapYear_def spec_leap_year_def a b c using d e by auto
qed

lemma daysInMonth_spec:
  assumes "1 \<le> m" "m \<le> 12"
  shows "daysInMonth (int y) (int m - 1) = int (spec_month_length y m)"
proof -
  from assms have "m = 1 \<or> m = 2 \<or> m = 3 \<or> m = 4 \<or> m = 5 \<or> m = 6 \<or> m = 7 \<or> m = 8 \<or>
      m = 9 \<or> m = 10 \<or> m = 11 \<or> m = 12" by arith
  then show ?thesis
    by (elim disjE) (simp_all add: daysInMonth_def spec_month_length_def isLeapYear_spec)
qed

lemma spec_month_length_le: "spec_month_length y m \<le> 31"
  by (simp add: spec_month_length_def)

lemma validateDate_render:
  assumes "spec_calendar_date y m d"
  shows "validateDate (spec_render y m d)"
proof -
  from assms have m: "1 \<le> m" "m \<le> 12" and d: "1 \<le> d" "d \<le> spec_month_length y m"
    and y: "y \<le> 9999"
    by (simp_all add: spec_calendar_date_def)
  from d(2) spec_month_length_le [of y m] have "d < 100" by simp
  with m y have p: "strict_MM_DD_YYYY (spec_render y m d) = Some (int m - 1, int d, int y)"
    by (intro strict_render) simp_all
  have "\<not> overflow (int m - 1, int d, int y)"
    using m d by (simp add: overflow_def daysInMonth_spec)
  with p show ?thesis by (simp add: validateDate_def)
qed

lemma validateDate_is_render:
  assumes "validateDate s"
  shows "\<exists>y m d. spec_calendar_date y m d \<and> s = spec_render y m d"
proof -
  from assms obtain mi d y where p: "strict_MM_DD_YYYY s = Some (mi, d, y)"
    and o: "\<not> overflow (mi, d, y)"
    by (auto simp: validateDate_def split: option.splits)
  from render_strict [OF p] obtain m' d' y' where b: "m' < 100" "d' < 100" "y' < 10000"
    and v: "mi = int m' - 1" "d = int d'" "y = int y'" and s: "s = spec_render y' m' d'"
    by blast
  from o have mi: "0 \<le> mi" "mi \<le> 11" and dd: "1 \<le> d" "d \<le> daysInMonth y mi"
    by (simp_all add: overflow_def split: if_splits)
  from mi v(1) have m: "1 \<le> m'" "m' \<le> 12" by simp_all
  from dd have "1 \<le> d'" "d' \<le> spec_month_length y' m'"
    unfolding v daysInMonth_spec [OF m] by simp_all
  with m b(3) have "spec_calendar_date y' m' d'"
    by (simp add: spec_calendar_date_def)
  with s show ?thesis by blast
qed

text \<open>
  Claim C9. \<open>validateDate\<close> accepts exactly the strings that are the strict \<open>MM-DD-YYYY\<close>
  rendering of a valid calendar date (years 0000 to 9999); it rejects \<open>13-01-2020\<close>, accepts
  \<open>02-29-2020\<close> (a leap year) and rejects \<open>02-29-2021\<close>.
\<close>

theorem validateDate_exact:
  "(validateDate s \<longleftrightarrow> (\<exists>y m d. spec_calendar_date y m d \<and> s = spec_render y m d)) \<and>
   \<not> validateDate ''13-01-2020'' \<and> validateDate ''02-29-2020'' \<and> \<not> validateDate ''02-29-2021''"
  using validateDate_render validateDate_is_render validateDate_examples by blast

theorem validateDate_exact_witness:
  "(\<exists>y m d. spec_calendar_date y m d \<and> ''12-31-1999'' = spec_render y m d) \<and>
   \<not> (\<exists>y m d. spec_calendar_date y m d \<and> ''04-31-2024'' = spec_render y m d) \<and>
   \<not> (\<exists>y m d. spec_calendar_date y m d \<and> ''1-1-2020'' = spec_render y m d)"
proof -
  have a: "validateDate ''12-31-1999''"
    by (simp add: validateDate_def overflow_def daysInMonth_def isLeapYear_def is_digit_def
      toInt_def)
  have c: "\<not> validateDate ''04-31-2024''" "\<not> validateDate ''1-1-2020''"
    by (simp_all add: validateDate_def overflow_def daysInMonth_def isLeapYear_def is_digit_def
      toInt_def)
  from validateDate_exact [of "''12-31-1999''"] validateDate_exact [of "''04-31-2024''"]
    validateDate_exact [of "''1-1-2020''"] a c show ?thesis by blast
qed

section \<open>Properties of the listings\<close>

lemma set_map_filter: "y \<in> set (List.map_filter f xs) \<longleftrightarrow> (\<exists>x\<in>set xs. f x = Some y)"
  by (induction xs) (auto split: option.splits)

lemma find_SomeD: "List.find P xs = Some x \<Longrightarrow> x \<in> set xs \<and> P x"
  by (induction xs) (auto split: if_splits)

lemma find_None_iff': "List.find P xs = None \<longleftrightarrow> (\<forall>x\<in>set xs. \<not> P x)"
  by (induction xs) auto

lemma find_Some_ex: "(\<exists>x. List.find P xs = Some x) \<longleftrightarrow> (\<exists>x\<in>set xs. P x)"
  using find_None_iff' [of P xs] by (cases "List.find P xs") auto

lemmas example_data =
  client_profile_def contractor_profile_def contract_def unpaid_job_def paid_job_def

lemmas store_defs =
  Contract_of_def Profile_of_def load_def Profile_update_def Job_update_def affectedCount_def

text \<open>
  Claim C6. \<open>GET /contracts\<close> answers 200 with exactly the contracts that the actor owns
  (\<open>ClientId\<close> is the actor's id when the actor is a client, \<open>ContractorId\<close> otherwise) and whose
  status is not \<open>terminated\<close>; no returned contract is terminated.
\<close>

theorem get_contracts_exact:
  "\<exists>cs. get_contracts profile st = Response 200 (Contract_list cs) \<and>
     (\<forall>c. c \<in> set cs \<longleftrightarrow>
            c \<in> set (Contracts st) \<and> status c \<noteq> Terminated \<and>
            (if ptype profile = Client then ClientId c = profile_id profile
             else ContractorId c = profile_id profile)) \<and>
     (\<forall>c\<in>set cs. status c \<noteq> Terminated)"
  by (auto simp: get_contracts_def owned_by_def)

theorem get_contracts_exact_witness:
  "\<exists>cs. get_contracts (client_profile 1 ''Harry'' ''Potter'' (Some (Num 100))) listing_store
           = Response 200 (Contract_list cs) \<and>
     contract 1 In_progress 1 2 \<in> set cs \<and> contract 3 New 1 2 \<in> set cs \<and>
     contract 2 Terminated 1 2 \<notin> set cs \<and> contract 4 In_progress 3 2 \<notin> set cs"
proof -
  from get_contracts_exact [of "client_profile 1 ''Harry'' ''Potter'' (Some (Num 100))" listing_store]
  obtain cs where r: "get_contracts (client_profile 1 ''Harry'' ''Potter'' (Some (Num 100))) listing_store
      = Response 200 (Contract_list cs)"
    and m: "\<And>c. c \<in> set cs \<longleftrightarrow>
            c \<in> set (Contracts listing_store) \<and> status c \<noteq> Terminated \<and>
            (if ptype (client_profile 1 ''Harry'' ''Potter'' (Some (Num 100))) = Client
             then ClientId c = profile_id (client_profile 1 ''Harry'' ''Potter'' (Some (Num 100)))
             else ContractorId c = profile_id (client_profile 1 ''Harry'' ''Potter'' (Some (Num 100))))"
    by blast
  have "contract 1 In_progress 1 2 \<in> set cs" "contract 3 New 1 2 \<in> set cs"
    "contract 2 Terminated 1 2 \<notin> set cs" "contract 4 In_progress 3 2 \<notin> set cs"
    unfolding m by (simp_all add: listing_store_def example_data)
  with r show ?thesis by blast
qed

text \<open>
  Claim C5. \<open>GET /jobs/unpaid\<close> answers 200 with a job exactly when the job's \<open>paid\<close> is not
  true and the job's contract is in progress and owned by the actor (as client when the
  actor is a client, as contractor otherwise); every returned job comes with such a
  contract, so jobs under contracts of others are never included.
\<close>

theorem get_jobs_unpaid_exact:
  "\<exists>rows. get_jobs_unpaid profile st = Response 200 (Job_list rows) \<and>
     (\<forall>j. j \<in> fst ` set rows \<longleftrightarrow>
            j \<in> set (Jobs st) \<and> paid j \<noteq> Some True \<and>
            (\<exists>c\<in>set (Contracts st). contract_id c = ContractId j \<and> status c = In_progress \<and>
               (if ptype profile = Client then ClientId c = profile_id profile
                else ContractorId c = profile_id profile))) \<and>
     (\<forall>row\<in>set rows. contract_id (snd row) = ContractId (fst row) \<and>
        status (snd row) = In_progress \<and>
        (if ptype profile = Client then ClientId (snd row) = profile_id profile
         else ContractorId (snd row) = profile_id profile))"
proof -
  let ?w = "\<lambda>c. status c = In_progress \<and> owned_by profile c"
  let ?rows = "List.map_filter (\<lambda>j. map_option (Pair j) (Contract_of ?w st j))
                 (filter (\<lambda>j. paid j \<noteq> Some True) (Jobs st))"
  have mem: "(j, c) \<in> set ?rows \<longleftrightarrow>
      j \<in> set (Jobs st) \<and> paid j \<noteq> Some True \<and> Contract_of ?w st j = Some c" for j c
    by (auto simp: set_map_filter)
  have a: "j \<in> fst ` set ?rows \<longleftrightarrow>
      j \<in> set (Jobs st) \<and> paid j \<noteq> Some True \<and>
      (\<exists>c\<in>set (Contracts st). contract_id c = ContractId j \<and> status c = In_progress \<and>
         (if ptype profile = Client then ClientId c = profile_id profile
          else ContractorId c = profile_id profile))" for j
  proof -
    have "j \<in> fst ` set ?rows \<longleftrightarrow> (\<exists>c. (j, c) \<in> set ?rows)" by force
    also have "\<dots> \<longleftrightarrow> j \<in> set (Jobs st) \<and> paid j \<noteq> Some True \<and>
        (\<exists>c. Contract_of ?w st j = Some c)"
      unfolding mem by blast
    also have "(\<exists>c. Contract_of ?w st j = Some c) \<longleftrightarrow>
        (\<exists>c\<in>set (Contracts st). contract_id c = ContractId j \<and> ?w c)"
      unfolding Contract_of_def by (rule find_Some_ex)
    finally show ?thesis by (simp add: owned_by_def)
  qed
  have b: "contract_id (snd row) = ContractId (fst row) \<and> status (snd row) = In_progress \<and>
        (if ptype profile = Client then ClientId (snd row) = profile_id profile
         else ContractorId (snd row) = profile_id profile)" if "row \<in> set ?rows" for row
  proof -
    obtain j c where row: "row = (j, c)" by (cases row)
    with that mem have "Contract_of ?w st j = Some c" by simp
    then have "contract_id c = ContractId j \<and> ?w c"
      unfolding Contract_of_def by (auto dest: find_SomeD)
    then show ?thesis by (simp add: row owned_by_def)
  qed
  have "get_jobs_unpaid profile st = Response 200 (Job_list ?rows)"
    by (simp add: get_jobs_unpaid_def)
  with a b show ?thesis by blast
qed

theorem get_jobs_unpaid_exact_witness:
  "\<exists>rows. get_jobs_unpaid (client_profile 1 ''Harry'' ''Potter'' (Some (Num 100))) listing_store
             = Response 200 (Job_list rows) \<and>
     unpaid_job 1 200 1 \<in> fst ` set rows \<and>
     paid_job 2 50 1 1597518686737 \<notin> fst ` set rows \<and>
     unpaid_job 3 30 2 \<notin> fst ` set rows \<and>
     unpaid_job 4 40 3 \<notin> fst ` set rows \<and>
     unpaid_job 5 60 4 \<notin> fst ` set rows"
proof -
  from get_jobs_unpaid_exact [of "client_profile 1 ''Harry'' ''Potter'' (Some (Num 100))" listing_store]
  obtain rows where r: "get_jobs_unpaid (client_profile 1 ''Harry'' ''Potter'' (Some (Num 100)))
      listing_store = Response 200 (Job_list rows)"
    and m: "\<And>j. j \<in> fst ` set rows \<longleftrightarrow>
            j \<in> set (Jobs listing_store) \<and> paid j \<noteq> Some True \<and>
            (\<exists>c\<in>set (Contracts listing_store). contract_id c = ContractId j \<and>
               status c = In_progress \<and>
               (if ptype (client_profile 1 ''Harry'' ''Potter'' (Some (Num 100))) = Client
                then ClientId c = profile_id (client_profile 1 ''Harry'' ''Potter'' (Some (Num 100)))
                else ContractorId c = profile_id (client_profile 1 ''Harry'' ''Potter'' (Some (Num 100)))))"
    by blast
  have "unpaid_job 1 200 1 \<in> fst ` set rows" "paid_job 2 50 1 1597518686737 \<notin> fst ` set rows"
    "unpaid_job 3 30 2 \<notin> fst ` set rows" "unpaid_job 4 40 3 \<notin> fst ` set rows"
    "unpaid_job 5 60 4 \<notin> fst ` set rows"
    unfolding m by (simp_all add: listing_store_def example_data)
  with r show ?thesis by blast
qed

section \<open>Properties of payment\<close>

lemma find_map_update:
  assumes "\<And>x. key (g x) = key x"
  shows "List.find (\<lambda>x. key x = k) (map (\<lambda>x. if key x = k0 then g x else x) xs) =
         map_option (\<lambda>x. if key x = k0 then g x else x) (List.find (\<lambda>x. key x = k) xs)"
  using assms by (induction xs) auto

lemma Profile_of_update:
  "Profile_of (Profile_update b k0 st) k =
     map_option (\<lambda>p. if profile_id p = k0 then p\<lparr>balance := to_column b\<rparr> else p)
       (Profile_of st k)"
  unfolding Profile_of_def Profile_update_def
  using find_map_update [of profile_id "\<lambda>p. p\<lparr>balance := to_column b\<rparr>" k k0 "Profiles st"]
  by simp

lemma Profile_of_id: "Profile_of st k = Some p \<Longrightarrow> profile_id p = k \<and> p \<in> set (Profiles st)"
  unfolding Profile_of_def by (auto dest: find_SomeD)

lemma balance_of_update:
  "balance_of (Profile_update b k0 st) k =
     (if k = k0 then map_option (\<lambda>_. to_column b) (balance_of st k) else balance_of st k)"
proof (cases "Profile_of st k")
  case None
  then show ?thesis by (auto simp: balance_of_def Profile_of_update)
next
  case (Some p)
  with Profile_of_id have "profile_id p = k" by blast
  with Some show ?thesis by (auto simp: balance_of_def Profile_of_update)
qed

lemma balance_of_Job_update [simp]: "balance_of (Job_update f k st) k' = balance_of st k'"
  by (simp add: balance_of_def Profile_of_def Job_update_def)

lemma Job_of_Profile_update [simp]: "Job_of (Profile_update b k st) k' = Job_of st k'"
  by (simp add: Job_of_def Profile_update_def)

lemma Job_of_update:
  assumes "\<And>j. job_id (f j) = job_id j"
  shows "Job_of (Job_update f k0 st) k =
     map_option (\<lambda>j. if job_id j = k0 then f j else j) (Job_of st k)"
  unfolding Job_of_def Job_update_def
  using find_map_update [of job_id f k k0 "Jobs st"] assms by simp

lemma Job_of_defined:
  assumes "j \<in> set (Jobs st)"
  shows "\<exists>j'. Job_of st (job_id j) = Some j' \<and> job_id j' = job_id j"
proof -
  from assms have "\<exists>x\<in>set (Jobs st). job_id x = job_id j" by blast
  then obtain j' where "List.find (\<lambda>x. job_id x = job_id j) (Jobs st) = Some j'"
    using find_Some_ex [of "\<lambda>x. job_id x = job_id j" "Jobs st"] by blast
  then show ?thesis unfolding Job_of_def by (auto dest: find_SomeD)
qed

lemma Job_findOne_SomeD:
  assumes "Job_findOne k caller st = Some (job, c, client, contractor)"
  shows "job \<in> set (Jobs st)" "job_id job = k" "c \<in> set (Contracts st)"
    "contract_id c = ContractId job" "ClientId c = caller"
    "client = Profile_of st (ClientId c)" "contractor = Profile_of st (ContractorId c)"
proof -
  let ?rows = "List.map_filter
      (\<lambda>j. map_option (load st j) (Contract_of (\<lambda>c. ClientId c = caller) st j))
      (filter (\<lambda>j. job_id j = k) (Jobs st))"
  from assms have "(job, c, client, contractor) \<in> set ?rows"
    by (auto simp: Job_findOne_def split: list.splits)
  then obtain j c' where j: "j \<in> set (Jobs st)" "job_id j = k"
    and c': "Contract_of (\<lambda>c. ClientId c = caller) st j = Some c'"
    and l: "load st j c' = (job, c, client, contractor)"
    by (auto simp: set_map_filter)
  from l have e: "j = job" "c' = c" "client = Profile_of st (ClientId c)"
    "contractor = Profile_of st (ContractorId c)"
    by (auto simp: load_def)
  from c' have "c' \<in> set (Contracts st)" "contract_id c' = ContractId j" "ClientId c' = caller"
    unfolding Contract_of_def by (auto dest: find_SomeD)
  with j e show "job \<in> set (Jobs st)" "job_id job = k" "c \<in> set (Contracts st)"
    "contract_id c = ContractId job" "ClientId c = caller"
    "client = Profile_of st (ClientId c)" "contractor = Profile_of st (ContractorId c)"
    by simp_all
qed

text \<open>What a 200 answer of the handler tells about its run.\<close>

lemma pay_200D:
  assumes "pay now profile k st = (Response 200 body, st')"
  shows "\<exists>job c cl co.
     Job_findOne k (profile_id profile) st = Some (job, c, Some cl, Some co) \<and>
     body = Message ''Paid successfully'' \<and>
     \<not> js_gt (Num (price job)) (ToNumber (balance cl)) \<and>
     st' = Job_update (\<lambda>j. j\<lparr>paid := Some True, paymentDate := Some now\<rparr>) (job_id job)
             (Profile_update (js_sub (ToNumber (balance cl)) (Num (price job)))
                (profile_id profile)
               (Profile_update (js_add (ToNumber (balance co)) (Num (price job)))
                  (profile_id co) st))"
  using assms unfolding pay_def
  by (auto split: option.splits prod.splits if_splits simp: Let_def)

text \<open>
  Claim C1, as amended. On a store whose contracts link two different profiles, every
  payment answered 200 carries the message \<open>Paid successfully\<close>, sets the job's \<open>paid\<close>
  flag, sets its \<open>paymentDate\<close> to the current time, and writes as the client's balance
  the difference of that balance and the job's price, as the contractor's balance the
  sum of that balance and the price, both as double arithmetic computes them (a \<open>NULL\<close>
  balance counting as 0). When the balances are finite numbers and the exact difference
  and the exact sum are doubles, these are written, and the sum of the two balances is
  unchanged.
\<close>

theorem pay_success:
  assumes ok: "pay now profile k st = (Response 200 body, st')"
    and wf: "parties_distinct st"
  shows "body = Message ''Paid successfully'' \<and>
     (\<exists>job c a b.
        job \<in> set (Jobs st) \<and> job_id job = k \<and>
        c \<in> set (Contracts st) \<and> contract_id c = ContractId job \<and>
        ClientId c = profile_id profile \<and>
        balance_of st (ClientId c) = Some a \<and>
        balance_of st (ContractorId c) = Some b \<and>
        balance_of st' (ClientId c) = Some (to_column (js_sub (ToNumber a) (Num (price job)))) \<and>
        balance_of st' (ContractorId c)
          = Some (to_column (js_add (ToNumber b) (Num (price job)))) \<and>
        (\<forall>x y. a = Some (Num x) \<and> b = Some (Num y) \<and>
               fl (x - price job) = Num (x - price job) \<and>
               fl (y + price job) = Num (y + price job) \<longrightarrow>
           balance_of st' (ClientId c) = Some (Some (Num (x - price job))) \<and>
           balance_of st' (ContractorId c) = Some (Some (Num (y + price job))) \<and>
           (x - price job) + (y + price job) = x + y)) \<and>
     map_option paid (Job_of st' k) = Some (Some True) \<and>
     map_option paymentDate (Job_of st' k) = Some (Some now)"
proof -
  from pay_200D [OF ok] obtain job c cl co where
    f: "Job_findOne k (profile_id profile) st = Some (job, c, Some cl, Some co)"
    and body: "body = Message ''Paid successfully''"
    and st': "st' = Job_update (\<lambda>j. j\<lparr>paid := Some True, paymentDate := Some now\<rparr>) (job_id job)
             (Profile_update (js_sub (ToNumber (balance cl)) (Num (price job)))
                (profile_id profile)
               (Profile_update (js_add (ToNumber (balance co)) (Num (price job)))
                  (profile_id co) st))"
    by blast
  note d = Job_findOne_SomeD [OF f]
  from d(6) have cl: "Profile_of st (ClientId c) = Some cl" by simp
  from d(7) have co: "Profile_of st (ContractorId c) = Some co" by simp
  from Profile_of_id [OF cl] have cl_id: "profile_id cl = ClientId c" by simp
  from Profile_of_id [OF co] have co_id: "profile_id co = ContractorId c" by simp
  from wf d(3) have ne: "ClientId c \<noteq> ContractorId c" by (simp add: parties_distinct_def)
  define a where "a = balance cl"
  define b where "b = balance co"
  define new_a where "new_a = js_sub (ToNumber a) (Num (price job))"
  define new_b where "new_b = js_add (ToNumber b) (Num (price job))"
  have b0: "balance_of st (ClientId c) = Some a" "balance_of st (ContractorId c) = Some b"
    by (simp_all add: balance_of_def cl co a_def b_def)
  let ?st1 = "Profile_update new_b (profile_id co) st"
  let ?st2 = "Profile_update new_a (profile_id profile) ?st1"
  have s1: "balance_of ?st1 (ClientId c) = Some a"
    "balance_of ?st1 (ContractorId c) = Some (to_column new_b)"
    unfolding balance_of_update co_id b0 using ne by simp_all
  have "balance_of ?st2 (ClientId c) =
      (if ClientId c = profile_id profile
       then map_option (\<lambda>_. to_column new_a) (balance_of ?st1 (ClientId c))
       else balance_of ?st1 (ClientId c))"
    by (rule balance_of_update)
  then have s2: "balance_of ?st2 (ClientId c) = Some (to_column new_a)"
    unfolding s1(1) by (simp add: d(5))
  have "balance_of ?st2 (ContractorId c) =
      (if ContractorId c = profile_id profile
       then map_option (\<lambda>_. to_column new_a) (balance_of ?st1 (ContractorId c))
       else balance_of ?st1 (ContractorId c))"
    by (rule balance_of_update)
  then have s3: "balance_of ?st2 (ContractorId c) = Some (to_column new_b)"
    unfolding s1(2) using ne d(5) by simp
  have st'': "st' = Job_update (\<lambda>j. j\<lparr>paid := Some True, paymentDate := Some now\<rparr>) (job_id job)
      ?st2"
    unfolding st' new_a_def new_b_def a_def b_def by (rule refl)
  have b1: "balance_of st' (ClientId c) = Some (to_column new_a)"
    unfolding st'' by (simp add: s2)
  have b2: "balance_of st' (ContractorId c) = Some (to_column new_b)"
    unfolding st'' by (simp add: s3)
  have exact: "balance_of st' (ClientId c) = Some (Some (Num (x - price job))) \<and>
      balance_of st' (ContractorId c) = Some (Some (Num (y + price job))) \<and>
      (x - price job) + (y + price job) = x + y"
    if "a = Some (Num x) \<and> b = Some (Num y) \<and> fl (x - price job) = Num (x - price job) \<and>
        fl (y + price job) = Num (y + price job)" for x y
    using that by (simp add: b1 b2 new_a_def new_b_def to_column_def)
  from Job_of_defined [OF d(1)] obtain j' where j': "Job_of st k = Some j'" "job_id j' = k"
    by (auto simp: d(2))
  have "Job_of st' k = Some (j'\<lparr>paid := Some True, paymentDate := Some now\<rparr>)"
    unfolding st'' by (simp add: Job_of_update j' d(2))
  then have p: "map_option paid (Job_of st' k) = Some (Some True)"
    "map_option paymentDate (Job_of st' k) = Some (Some now)"
    by simp_all
  have "\<exists>job c a b.
        job \<in> set (Jobs st) \<and> job_id job = k \<and>
        c \<in> set (Contracts st) \<and> contract_id c = ContractId job \<and>
        ClientId c = profile_id profile \<and>
        balance_of st (ClientId c) = Some a \<and>
        balance_of st (ContractorId c) = Some b \<and>
        balance_of st' (ClientId c) = Some (to_column (js_sub (ToNumber a) (Num (price job)))) \<and>
        balance_of st' (ContractorId c)
          = Some (to_column (js_add (ToNumber b) (Num (price job)))) \<and>
        (\<forall>x y. a = Some (Num x) \<and> b = Some (Num y) \<and>
               fl (x - price job) = Num (x - price job) \<and>
               fl (y + price job) = Num (y + price job) \<longrightarrow>
           balance_of st' (ClientId c) = Some (Some (Num (x - price job))) \<and>
           balance_of st' (ContractorId c) = Some (Some (Num (y + price job))) \<and>
           (x - price job) + (y + price job) = x + y)"
    using d(1-5) b0 b1 b2 exact unfolding new_a_def new_b_def
    by (intro exI [of _ job] exI [of _ c] exI [of _ a] exI [of _ b]) blast
  with body p show ?thesis by blast
qed

lemma pay_store_run:
  "pay 1597518686737 (client_profile 1 ''Harry'' ''Potter'' (Some (Num 150))) 1 pay_store =
     (Response 200 (Message ''Paid successfully''),
      \<lparr>Profiles = [client_profile 1 ''Harry'' ''Potter'' (Some (Num 50)),
                   contractor_profile 2 (Some (Num 110))],
       Contracts = [contract 1 In_progress 1 2],
       Jobs = [paid_job 1 100 1 1597518686737, unpaid_job 2 200 1]\<rparr>)"
  by (simp add: pay_def Job_findOne_def Let_def store_defs to_column_def pay_store_def
      example_data)

theorem pay_success_witness:
  "\<exists>st'. pay 1597518686737 (client_profile 1 ''Harry'' ''Potter'' (Some (Num 150))) 1 pay_store =
            (Response 200 (Message ''Paid successfully''), st') \<and>
     balance_of pay_store 1 = Some (Some (Num 150)) \<and>
     balance_of pay_store 2 = Some (Some (Num 10)) \<and>
     balance_of st' 1 = Some (Some (Num 50)) \<and> balance_of st' 2 = Some (Some (Num 110)) \<and>
     map_option paid (Job_of st' 1) = Some (Some True) \<and>
     map_option paymentDate (Job_of st' 1) = Some (Some 1597518686737)"
proof -
  let ?st' = "\<lparr>Profiles = [client_profile 1 ''Harry'' ''Potter'' (Some (Num 50)),
                          contractor_profile 2 (Some (Num 110))],
       Contracts = [contract 1 In_progress 1 2],
       Jobs = [paid_job 1 100 1 1597518686737, unpaid_job 2 200 1]\<rparr>"
  have wf: "parties_distinct pay_store"
    by (simp add: parties_distinct_def pay_store_def example_data)
  from pay_success [OF pay_store_run wf]
  have "map_option paid (Job_of ?st' 1) = Some (Some True) \<and>
     map_option paymentDate (Job_of ?st' 1) = Some (Some 1597518686737)"
    by blast
  moreover have "balance_of pay_store 1 = Some (Some (Num 150))"
    "balance_of pay_store 2 = Some (Some (Num 10))"
    "balance_of ?st' 1 = Some (Some (Num 50))" "balance_of ?st' 2 = Some (Some (Num 110))"
    by (simp_all add: balance_of_def Profile_of_def pay_store_def example_data)
  ultimately show ?thesis using pay_store_run by blast
qed

subsection \<open>Where the claim as first stated fails\<close>

lemma fl_cents:
  "fl (double_0_2 + double_0_1) = Num (1351079888211149 / 4503599627370496)"
  "fl (double_0_3 - double_0_1) = Num (7205759403792793 / 36028797018963968)"
  by code_simp+

lemma same_party_run:
  "pay 1597518686737 (client_profile 1 ''Harry'' ''Potter'' (Some (Num 150))) 1 same_party_store =
     (Response 200 (Message ''Paid successfully''),
      \<lparr>Profiles = [client_profile 1 ''Harry'' ''Potter'' (Some (Num 50))],
       Contracts = [contract 1 In_progress 1 1],
       Jobs = [paid_job 1 100 1 1597518686737]\<rparr>)"
  by (simp add: pay_def Job_findOne_def Let_def store_defs to_column_def same_party_store_def
      example_data)

lemma cents_run:
  "pay 1597518686737 (client_profile 1 ''Harry'' ''Potter'' (Some (Num double_0_3))) 1 cents_store =
     (Response 200 (Message ''Paid successfully''),
      \<lparr>Profiles = [client_profile 1 ''Harry'' ''Potter''
                     (Some (Num (7205759403792793 / 36028797018963968))),
                   contractor_profile 2 (Some (Num (1351079888211149 / 4503599627370496)))],
       Contracts = [contract 1 In_progress 1 2],
       Jobs = [paid_job 1 double_0_1 1 1597518686737]\<rparr>)"
proof -
  have "\<not> double_0_3 < double_0_1" by (simp add: double_0_1_def double_0_3_def)
  then show ?thesis
    by (simp add: pay_def Job_findOne_def Let_def store_defs to_column_def cents_store_def
        example_data fl_cents)
qed

text \<open>
  Claim C1 as first stated fails on two runs answered 200. On \<open>same_party_store\<close> the one
  profile is client and contractor of the contract: the job costs 100 and the balance
  goes from 150 to 50, so the contractor's balance has not grown by 100. On \<open>cents_store\<close>
  the contractor's balance 0.2 and the price 0.1 give 0.30000000000000004, which is not
  their sum.
\<close>

theorem pay_not_exact:
  "(\<exists>st'. pay 1597518686737 (client_profile 1 ''Harry'' ''Potter'' (Some (Num 150))) 1
             same_party_store = (Response 200 (Message ''Paid successfully''), st') \<and>
      ContractorId (contract 1 In_progress 1 1) = 1 \<and>
      balance_of same_party_store 1 = Some (Some (Num 150)) \<and>
      balance_of st' 1 = Some (Some (Num 50)) \<and> (50::rat) \<noteq> 150 + 100) \<and>
   (\<exists>st'. pay 1597518686737 (client_profile 1 ''Harry'' ''Potter'' (Some (Num double_0_3))) 1
             cents_store = (Response 200 (Message ''Paid successfully''), st') \<and>
      balance_of cents_store 2 = Some (Some (Num double_0_2)) \<and>
      balance_of st' 2 = Some (Some (Num (1351079888211149 / 4503599627370496))) \<and>
      1351079888211149 / 4503599627370496 \<noteq> double_0_2 + double_0_1)"
proof -
  have "ContractorId (contract 1 In_progress 1 1) = 1"
    "balance_of same_party_store 1 = Some (Some (Num 150))"
    "balance_of \<lparr>Profiles = [client_profile 1 ''Harry'' ''Potter'' (Some (Num 50))],
       Contracts = [contract 1 In_progress 1 1],
       Jobs = [paid_job 1 100 1 1597518686737]\<rparr> 1 = Some (Some (Num 50))"
    by (simp_all add: balance_of_def Profile_of_def same_party_store_def example_data)
  with same_party_run have a: "\<exists>st'. pay 1597518686737
      (client_profile 1 ''Harry'' ''Potter'' (Some (Num 150))) 1
      same_party_store = (Response 200 (Message ''Paid successfully''), st') \<and>
      ContractorId (contract 1 In_progress 1 1) = 1 \<and>
      balance_of same_party_store 1 = Some (Some (Num 150)) \<and>
      balance_of st' 1 = Some (Some (Num 50)) \<and> (50::rat) \<noteq> 150 + 100"
    by simp
  have "balance_of cents_store 2 = Some (Some (Num double_0_2))"
    "balance_of \<lparr>Profiles = [client_profile 1 ''Harry'' ''Potter''
                     (Some (Num (7205759403792793 / 36028797018963968))),
                   contractor_profile 2 (Some (Num (1351079888211149 / 4503599627370496)))],
       Contracts = [contract 1 In_progress 1 2],
       Jobs = [paid_job 1 double_0_1 1 1597518686737]\<rparr> 2
      = Some (Some (Num (1351079888211149 / 4503599627370496)))"
    "1351079888211149 / 4503599627370496 \<noteq> double_0_2 + double_0_1"
    by (simp_all add: balance_of_def Profile_of_def cents_store_def example_data
        double_0_1_def double_0_2_def)
  with cents_run have b: "\<exists>st'. pay 1597518686737
      (client_profile 1 ''Harry'' ''Potter'' (Some (Num double_0_3))) 1
      cents_store = (Response 200 (Message ''Paid successfully''), st') \<and>
      balance_of cents_store 2 = Some (Some (Num double_0_2)) \<and>
      balance_of st' 2 = Some (Some (Num (1351079888211149 / 4503599627370496))) \<and>
      1351079888211149 / 4503599627370496 \<noteq> double_0_2 + double_0_1"
    by simp
  from a b show ?thesis by (rule conjI)
qed

subsection \<open>Rejected payments\<close>

lemma pay_no_job:
  assumes "Job_findOne k (profile_id profile) st = None"
  shows "pay now profile k st = (Response 400 (Error_message TypeError), st)"
  using assms by (simp add: pay_def)

lemma pay_already_paid:
  assumes "Job_findOne k (profile_id profile) st = Some (job, c, client, contractor)"
    and "paid job = Some True"
  shows "pay now profile k st = (Response 400 (Message ''Job already paid''), st)"
  using assms by (simp add: pay_def)

lemma pay_insufficient_funds:
  assumes "Job_findOne k (profile_id profile) st = Some (job, c, Some cl, contractor)"
    and "paid job \<noteq> Some True" and "js_gt (Num (price job)) (ToNumber (balance cl))"
  shows "pay now profile k st = (Response 400 (Message ''Insufficient funds''), st)"
  using assms by (simp add: pay_def)

lemma pay_rejected_unchanged:
  assumes "pay now profile k st = (Response code body, st')" and "code \<noteq> 200"
  shows "st' = st"
  using assms unfolding pay_def
  by (auto split: option.splits prod.splits if_splits simp: Let_def)

text \<open>
  Claim C2 asks for status 400 with the message \<open>No Job found\<close> when the caller has no job
  with the given id. The handler has that branch, but reads \<open>job.Contract\<close> first: client 1
  paying job 9, which does not exist, gets status 400 with the message of the TypeError
  instead. The store is left as it was. (The two later checks answer as the claim says:
  \<open>pay_already_paid\<close>, \<open>pay_insufficient_funds\<close>, \<open>pay_rejected_unchanged\<close>.)
\<close>

theorem pay_missing_job:
  "pay 1597518686737 (client_profile 1 ''Harry'' ''Potter'' (Some (Num 40))) 9
     (deposit_store (Some (Num 40))) =
     (Response 400 (Error_message TypeError), deposit_store (Some (Num 40)))"
  by (simp add: pay_def Job_findOne_def store_defs deposit_store_def example_data)

section \<open>Properties of deposits\<close>

lemma deposit_loop_all_skipped:
  assumes "\<forall>row\<in>set rows. js_gt (fl ((25 / 100) * price (fst row))) (balance_read pv)"
  shows "deposit_loop caller rows pv totalPaid totalJobsPaid st
           = (Inr (totalPaid, totalJobsPaid), st)"
  using assms
proof (induction rows)
  case Nil
  then show ?case by simp
next
  case (Cons row rows)
  obtain job c client contractor where row: "row = (job, c, client, contractor)"
    by (cases row)
  from Cons.prems have "js_gt (fl ((25 / 100) * price job)) (balance_read pv)"
    by (simp add: row)
  moreover from Cons have "deposit_loop caller rows pv totalPaid totalJobsPaid st
      = (Inr (totalPaid, totalJobsPaid), st)" by simp
  ultimately show ?case by (simp add: row)
qed

text \<open>
  Claim C10. When the candidate jobs are not empty and the deposit of every one of them
  exceeds the caller's balance, the answer is 200 \<open>Deposit paid\<close> with \<open>jobs\<close> the number of
  candidates, \<open>paid = 0\<close> and \<open>totalJobsPaid = 0\<close>, and the store is unchanged.
\<close>

theorem deposit_all_skipped:
  assumes "deposit_candidates profile userId st \<noteq> []"
    and "\<forall>row\<in>set (deposit_candidates profile userId st).
           js_gt (fl ((25 / 100) * price (fst row))) (ToNumber (balance profile))"
  shows "deposit profile userId st =
           (Response 200
              (Deposit_paid (length (deposit_candidates profile userId st)) (Num 0) 0), st)"
proof -
  from assms(2) have "deposit_loop (profile_id profile) (deposit_candidates profile userId st)
      (Request_profile profile) (Num 0) 0 st = (Inr (Num 0, 0), st)"
    by (intro deposit_loop_all_skipped) simp
  with assms(1) show ?thesis by (simp add: deposit_def)
qed

lemma deposit_store_candidates:
  "deposit_candidates (client_profile 1 ''Harry'' ''Potter'' b) 2 (deposit_store b) =
     [load (deposit_store b) (unpaid_job 1 100 1) (contract 1 In_progress 1 2),
      load (deposit_store b) (unpaid_job 2 100 1) (contract 1 In_progress 1 2),
      load (deposit_store b) (unpaid_job 3 100 1) (contract 1 In_progress 1 2)]"
  by (simp add: deposit_candidates_def Contract_of_def deposit_store_def example_data)

theorem deposit_all_skipped_witness:
  "deposit (client_profile 1 ''Harry'' ''Potter'' (Some (Num 20))) 2
     (deposit_store (Some (Num 20))) =
     (Response 200 (Deposit_paid 3 (Num 0) 0), deposit_store (Some (Num 20)))"
proof -
  let ?p = "client_profile 1 ''Harry'' ''Potter'' (Some (Num 20))"
  have a: "deposit_candidates ?p 2 (deposit_store (Some (Num 20))) \<noteq> []"
    unfolding deposit_store_candidates by simp
  have b: "\<forall>row\<in>set (deposit_candidates ?p 2 (deposit_store (Some (Num 20)))).
           js_gt (fl ((25 / 100) * price (fst row))) (ToNumber (balance ?p))"
    unfolding deposit_store_candidates by (simp add: load_def example_data)
  from deposit_all_skipped [OF a b] show ?thesis
    unfolding deposit_store_candidates by simp
qed

subsection \<open>The running balance\<close>

text \<open>
  Once one deposit has been made, \<open>profile\<close> holds the result of the update and no later
  job is skipped: a run that ends normally has processed every remaining job.
\<close>

lemma deposit_loop_after_update:
  assumes "deposit_loop caller rows (Update_result n) totalPaid totalJobsPaid st
             = (Inr (totalPaid', totalJobsPaid'), st')"
  shows "totalJobsPaid' = totalJobsPaid + length rows"
  using assms
proof (induction rows arbitrary: n totalPaid totalJobsPaid st)
  case Nil
  then show ?case by simp
next
  case (Cons row rows)
  obtain job c client contractor where row: "row = (job, c, client, contractor)"
    by (cases row)
  from Cons.prems obtain co where co: "contractor = Some co"
    by (cases contractor) (simp_all add: row Let_def)
  from Cons.prems have "deposit_loop caller rows (Update_result (affectedCount caller st))
      (js_add totalPaid (fl ((25 / 100) * price job))) (totalJobsPaid + 1)
      (Job_update (\<lambda>j. j\<lparr>depositPaid := Some True\<rparr>) (job_id job)
        (Profile_update (js_add (ToNumber (balance co)) (fl ((25 / 100) * price job)))
          (profile_id co)
          (Profile_update (js_sub NaN (fl ((25 / 100) * price job))) caller st)))
      = (Inr (totalPaid', totalJobsPaid'), st')"
    by (simp add: row co Let_def)
  from Cons.IH [OF this] show ?case by simp
qed

text \<open>
  Claim C4 expects, for three jobs of price 100 and a caller's balance of 40, that the
  first deposit of 25 is made, the other two jobs are skipped, and the answer reports
  \<open>totalJobsPaid = 1\<close> and \<open>paid = 25\<close>. The handler makes all three deposits and reports
  \<open>totalJobsPaid = 3\<close> and \<open>paid = 75\<close>: after the first deposit the balance it compares with
  is \<open>undefined\<close>. The caller's balance ends as \<open>NULL\<close> (the \<open>NaN\<close> of \<open>undefined - 25\<close>), the
  contractor's as 10 + 25.
\<close>

theorem deposit_ignores_running_balance:
  "deposit (client_profile 1 ''Harry'' ''Potter'' (Some (Num 40))) 2
     (deposit_store (Some (Num 40))) =
     (Response 200 (Deposit_paid 3 (Num 75) 3),
      \<lparr>Profiles = [client_profile 1 ''Harry'' ''Potter'' None,
                   contractor_profile 2 (Some (Num 35))],
       Contracts = [contract 1 In_progress 1 2],
       Jobs = [(unpaid_job 1 100 1)\<lparr>depositPaid := Some True\<rparr>,
               (unpaid_job 2 100 1)\<lparr>depositPaid := Some True\<rparr>,
               (unpaid_job 3 100 1)\<lparr>depositPaid := Some True\<rparr>]\<rparr>)"
  by (simp add: deposit_def deposit_candidates_def Let_def store_defs to_column_def js_sub_def
      deposit_store_def example_data)

section \<open>No balance is made negative\<close>

lemma Profiles_Profile_update:
  "Profiles (Profile_update b k st) =
     map (\<lambda>p. if profile_id p = k then p\<lparr>balance := to_column b\<rparr> else p) (Profiles st)"
  by (simp add: Profile_update_def)

lemma Profile_update_not_negative:
  assumes "no_negative_balance st" and "\<not> negative b"
  shows "no_negative_balance (Profile_update b k st)"
  using assms
  by (auto simp: no_negative_balance_def Profiles_Profile_update list_all_iff
      ToNumber_to_column_not_negative)

lemma Job_update_not_negative [simp]:
  "no_negative_balance (Job_update f k st) = no_negative_balance st"
  by (simp add: no_negative_balance_def Job_update_def)

lemma Profile_of_not_negative:
  assumes "no_negative_balance st" and "Profile_of st k = Some p"
  shows "\<not> negative (ToNumber (balance p))"
  using assms Profile_of_id [of st k p] by (auto simp: no_negative_balance_def list_all_iff)

lemma prices_Profile_update [simp]:
  "prices_not_negative (Profile_update b k st) = prices_not_negative st"
  by (simp add: prices_not_negative_def Profile_update_def)

lemma list_all_price_map:
  assumes "\<And>j. price (g j) = price j"
  shows "list_all (\<lambda>j. 0 \<le> price j) (map g js) = list_all (\<lambda>j. 0 \<le> price j) js"
  by (induction js) (simp_all add: assms)

lemma prices_Job_update:
  assumes "\<And>j. price (f j) = price j"
  shows "prices_not_negative (Job_update f k st) = prices_not_negative st"
proof -
  have "price (if job_id j = k then f j else j) = price j" for j
    by (simp add: assms)
  then show ?thesis
    unfolding prices_not_negative_def Job_update_def by (simp add: list_all_price_map)
qed

subsection \<open>Payments\<close>

lemma pay_keeps_not_negative:
  assumes inv: "no_negative_balance st"
    and prices: "prices_not_negative st"
    and run: "pay now profile k st = (r, st')"
  shows "no_negative_balance st' \<and> prices_not_negative st'"
proof (cases r)
  case (Response code body)
  show ?thesis
  proof (cases "code = 200")
    case False
    with pay_rejected_unchanged [of now profile k st code body st'] run Response inv prices
    show ?thesis by simp
  next
    case True
    with run Response have ok: "pay now profile k st = (Response 200 body, st')" by simp
    from pay_200D [OF ok] obtain job c cl co where
      f: "Job_findOne k (profile_id profile) st = Some (job, c, Some cl, Some co)"
      and guard: "\<not> js_gt (Num (price job)) (ToNumber (balance cl))"
      and st': "st' = Job_update (\<lambda>j. j\<lparr>paid := Some True, paymentDate := Some now\<rparr>) (job_id job)
             (Profile_update (js_sub (ToNumber (balance cl)) (Num (price job)))
                (profile_id profile)
               (Profile_update (js_add (ToNumber (balance co)) (Num (price job)))
                  (profile_id co) st))"
      by blast
    note d = Job_findOne_SomeD [OF f]
    from prices d(1) have p: "\<not> negative (Num (price job))"
      by (simp add: prices_not_negative_def list_all_iff not_less)
    from Profile_of_not_negative [OF inv d(6) [symmetric]]
    have a: "\<not> negative (ToNumber (balance cl))" .
    from Profile_of_not_negative [OF inv d(7) [symmetric]]
    have b: "\<not> negative (ToNumber (balance co))" .
    from js_sub_not_negative [OF a p guard]
    have n1: "\<not> negative (js_sub (ToNumber (balance cl)) (Num (price job)))" .
    from js_add_not_negative [OF b p]
    have n2: "\<not> negative (js_add (ToNumber (balance co)) (Num (price job)))" .
    from Profile_update_not_negative [OF Profile_update_not_negative [OF inv n2] n1]
    have "no_negative_balance st'" unfolding st' by simp
    moreover from prices have "prices_not_negative st'"
      unfolding st' by (simp add: prices_Job_update)
    ultimately show ?thesis ..
  qed
qed

text \<open>
  Claim C3 as first stated fails where a job has a negative price, which no handler
  excludes: client 1 (balance 40) pays a job of price -100 to contractor 2 (balance 10);
  the guard \<open>-100 > 40\<close> is false and the contractor's balance becomes 10 + (-100) = -90.
\<close>

theorem pay_negative_price:
  "no_negative_balance negative_price_store \<and>
   balance_of (snd (pay 1597518686737 (client_profile 1 ''Harry'' ''Potter'' (Some (Num 40))) 1
                      negative_price_store)) 2 = Some (Some (Num (- 90))) \<and>
   \<not> no_negative_balance
       (snd (pay 1597518686737 (client_profile 1 ''Harry'' ''Potter'' (Some (Num 40))) 1
               negative_price_store))"
proof -
  have "fl (- 90) = Num (- 90)" by code_simp
  then show ?thesis
    by (simp add: pay_def Job_findOne_def Let_def store_defs to_column_def balance_of_def
        no_negative_balance_def negative_price_store_def example_data)
qed

subsection \<open>Deposits\<close>

lemma deposit_loop_keeps_not_negative:
  assumes "no_negative_balance st" and "prices_not_negative st"
    and "\<not> negative (balance_read pv)"
    and "\<forall>row\<in>set rows. 0 \<le> price (fst row) \<and>
           (\<forall>co. snd (snd (snd row)) = Some co \<longrightarrow> \<not> negative (ToNumber (balance co)))"
    and "deposit_loop caller rows pv totalPaid totalJobsPaid st = (r, st')"
  shows "no_negative_balance st' \<and> prices_not_negative st'"
  using assms
proof (induction rows arbitrary: pv totalPaid totalJobsPaid st)
  case Nil
  then show ?case by simp
next
  case (Cons row rows)
  obtain job c client contractor where row: "row = (job, c, client, contractor)"
    by (cases row)
  define d where "d = fl ((25 / 100) * price job)"
  from Cons.prems(4) have pj: "0 \<le> price job" by (simp add: row)
  then have dn: "\<not> negative d" unfolding d_def by (intro fl_not_negative) simp
  from Cons.prems(4) have rest: "\<forall>row\<in>set rows. 0 \<le> price (fst row) \<and>
           (\<forall>co. snd (snd (snd row)) = Some co \<longrightarrow> \<not> negative (ToNumber (balance co)))"
    by simp
  show ?case
  proof (cases "js_gt d (balance_read pv)")
    case True
    with Cons.prems(5) have "deposit_loop caller rows pv totalPaid totalJobsPaid st = (r, st')"
      by (simp add: row d_def)
    from Cons.IH [OF Cons.prems(1-3) rest this] show ?thesis .
  next
    case False
    let ?st1 = "Profile_update (js_sub (balance_read pv) d) caller st"
    from js_sub_not_negative [OF Cons.prems(3) dn False]
    have "\<not> negative (js_sub (balance_read pv) d)" .
    from Profile_update_not_negative [OF Cons.prems(1) this]
    have i1: "no_negative_balance ?st1" .
    show ?thesis
    proof (cases contractor)
      case None
      with False Cons.prems(5) have "st' = ?st1"
        by (simp add: row d_def Let_def)
      with i1 Cons.prems(2) show ?thesis by simp
    next
      case (Some co)
      let ?st3 = "Job_update (\<lambda>j. j\<lparr>depositPaid := Some True\<rparr>) (job_id job)
          (Profile_update (js_add (ToNumber (balance co)) d) (profile_id co) ?st1)"
      from Cons.prems(4) Some have "\<not> negative (ToNumber (balance co))" by (simp add: row)
      from js_add_not_negative [OF this dn]
      have "\<not> negative (js_add (ToNumber (balance co)) d)" .
      from Profile_update_not_negative [OF i1 this]
      have i3: "no_negative_balance ?st3" by simp
      from Cons.prems(2) have p3: "prices_not_negative ?st3"
        by (simp add: prices_Job_update)
      have v: "\<not> negative (balance_read (Update_result (affectedCount caller st)))" by simp
      from False Some Cons.prems(5)
      have "deposit_loop caller rows (Update_result (affectedCount caller st))
          (js_add totalPaid d) (totalJobsPaid + 1) ?st3 = (r, st')"
        by (simp add: row d_def Let_def)
      from Cons.IH [OF i3 p3 v rest this] show ?thesis .
    qed
  qed
qed

lemma deposit_candidates_rows:
  assumes "no_negative_balance st" and "prices_not_negative st"
    and "row \<in> set (deposit_candidates profile userId st)"
  shows "0 \<le> price (fst row) \<and>
           (\<forall>co. snd (snd (snd row)) = Some co \<longrightarrow> \<not> negative (ToNumber (balance co)))"
proof -
  from assms(3) obtain j c where j: "j \<in> set (Jobs st)" and row: "row = load st j c"
    by (auto simp: deposit_candidates_def set_map_filter)
  from assms(2) j have "0 \<le> price j" by (simp add: prices_not_negative_def list_all_iff)
  moreover have "\<not> negative (ToNumber (balance co))"
    if "Profile_of st (ContractorId c) = Some co" for co
    using Profile_of_not_negative [OF assms(1) that] .
  ultimately show ?thesis by (simp add: row load_def)
qed

lemma deposit_keeps_not_negative:
  assumes inv: "no_negative_balance st" and prices: "prices_not_negative st"
    and caller: "\<not> negative (ToNumber (balance profile))"
    and run: "deposit profile userId st = (r, st')"
  shows "no_negative_balance st' \<and> prices_not_negative st'"
proof (cases "deposit_candidates profile userId st = []")
  case True
  with run inv prices show ?thesis by (simp add: deposit_def)
next
  case False
  obtain r0 st0 where l: "deposit_loop (profile_id profile)
      (deposit_candidates profile userId st) (Request_profile profile) (Num 0) 0 st = (r0, st0)"
    by (cases "deposit_loop (profile_id profile)
      (deposit_candidates profile userId st) (Request_profile profile) (Num 0) 0 st")
  with False run have "st' = st0"
    by (auto simp: deposit_def split: sum.splits prod.splits)
  moreover have "\<forall>row\<in>set (deposit_candidates profile userId st). 0 \<le> price (fst row) \<and>
           (\<forall>co. snd (snd (snd row)) = Some co \<longrightarrow> \<not> negative (ToNumber (balance co)))"
    using deposit_candidates_rows [OF inv prices] by blast
  moreover have "\<not> negative (balance_read (Request_profile profile))"
    using caller by simp
  ultimately show ?thesis
    using deposit_loop_keeps_not_negative [OF inv prices _ _ l] by blast
qed

subsection \<open>Sequences\<close>

lemma step_keeps_not_negative:
  assumes "no_negative_balance st" and "prices_not_negative st"
  shows "no_negative_balance (step r st) \<and> prices_not_negative (step r st)"
proof (cases r)
  case (Pay now caller k)
  show ?thesis
  proof (cases "getProfile st caller")
    case None
    with Pay assms show ?thesis by simp
  next
    case (Some profile)
    from pay_keeps_not_negative [OF assms, of now profile k] Pay Some
    show ?thesis by (cases "pay now profile k st") simp
  qed
next
  case (Deposit caller userId)
  show ?thesis
  proof (cases "getProfile st caller")
    case None
    with Deposit assms show ?thesis by simp
  next
    case (Some profile)
    then have "\<not> negative (ToNumber (balance profile))"
      using Profile_of_not_negative [OF assms(1)] by (simp add: getProfile_def)
    from deposit_keeps_not_negative [OF assms this, of userId] Deposit Some
    show ?thesis by (cases "deposit profile userId st") simp
  qed
qed

text \<open>
  Claim C3, as amended. On a store whose jobs have prices that are not negative, no
  payment and no deposit makes a balance negative: from balances that are not negative,
  after any sequence of payments and deposits no balance is negative.
\<close>

theorem run_keeps_not_negative:
  assumes "no_negative_balance st" and "prices_not_negative st"
  shows "no_negative_balance (run requests st)"
  using assms
proof (induction requests arbitrary: st)
  case Nil
  then show ?case by simp
next
  case (Cons r requests)
  from step_keeps_not_negative [OF Cons.prems, of r] Cons.IH show ?case by simp
qed

theorem run_keeps_not_negative_witness:
  "no_negative_balance
     (run [Pay 1597518686737 1 1, Deposit 1 2, Pay 1597518686737 1 2]
        (deposit_store (Some (Num 140))))"
proof -
  have "no_negative_balance (deposit_store (Some (Num 140)))"
    "prices_not_negative (deposit_store (Some (Num 140)))"
    by (simp_all add: no_negative_balance_def prices_not_negative_def deposit_store_def
        example_data)
  then show ?thesis by (rule run_keeps_not_negative)
qed

section \<open>Properties of the reports\<close>

lemma best_profession_missing:
  "best_profession moment_of findAll None end st = Response 404 No_body"
  by (simp add: best_profession_def)

lemma best_profession_start_malformed:
  assumes "s \<noteq> []" "\<not> validateDate s"
  shows "best_profession moment_of findAll (Some s) end st =
           Response 400 (Message ''Invalid dates, please use the format MM-DD-YYYY'')"
  using assms by (simp add: best_profession_def)

text \<open>
  Claim C7 expects status 400 whenever \<open>start\<close> or \<open>end\<close> is present but not in
  \<open>MM-DD-YYYY\<close> format. The handler tests and validates \<open>start\<close> twice and \<open>end\<close> never. With
  \<open>end = 2020-12-31\<close>, which \<open>validateDate\<close> rejects, the answer is 404 when \<open>start\<close> is
  absent, and is never the 400 for invalid dates when \<open>start\<close> is well-formed, whatever the
  forgiving parser makes of \<open>end\<close> and whatever the query returns.
\<close>

theorem best_profession_end_unchecked:
  "best_profession moment_of findAll None (Some ''2020-12-31'') st = Response 404 No_body \<and>
   best_profession moment_of findAll (Some ''01-01-2020'') (Some ''2020-12-31'') st
     \<noteq> Response 400 (Message ''Invalid dates, please use the format MM-DD-YYYY'') \<and>
   \<not> validateDate ''2020-12-31''"
  by (simp add: best_profession_def validateDate_def overflow_def daysInMonth_def isLeapYear_def
      is_digit_def toInt_def split: moment.splits list.splits)

theorem best_profession_end_unchecked_witness:
  "best_profession report_moment (\<lambda>a b st. []) None (Some ''2020-12-31'') report_store
     = Response 404 No_body \<and>
   best_profession report_moment (\<lambda>a b st. []) (Some ''01-01-2020'') (Some ''2020-12-31'')
     report_store = Response 404 No_body"
proof -
  have "best_profession report_moment (\<lambda>a b st. []) (Some ''01-01-2020'') (Some ''2020-12-31'')
     report_store = Response 404 No_body"
    by (simp add: best_profession_def validateDate_def overflow_def daysInMonth_def
        isLeapYear_def is_digit_def toInt_def report_moment_def)
  with best_profession_end_unchecked [of report_moment "\<lambda>a b st. []" report_store]
  show ?thesis by blast
qed

text \<open>
  Claim C8 expects the clients ranked by their summed totals: with \<open>limit = 1\<close> and totals
  500 and 300, the client with 500. The query groups and orders by \<open>price\<close>, not by client.
  On \<open>report_store\<close>, client 1 paid 250 twice and client 3 paid 300 once; the first group
  is the price 300, and the answer is client 3 with \<open>paid = 300\<close>.
\<close>

theorem best_clients_groups_by_price:
  "best_clients report_moment (Some ''01-01-2020'') (Some ''12-31-2020'') (Some 1) report_store =
     Response 200 (Best_clients [\<lparr>entry_id = 3, fullName = ''Ash Ketchum'', entry_paid = 300\<rparr>])"
  by (simp add: best_clients_def validateDate_def overflow_def daysInMonth_def isLeapYear_def
      is_digit_def toInt_def paid_between_def group_by_price_def order_by_price_desc_def
      Contract_of_def Profile_of_def report_store_def report_moment_def example_data)

theorem best_clients_groups_by_price_witness:
  "best_clients report_moment (Some ''01-01-2020'') (Some ''12-31-2020'') (Some 1) report_store \<noteq>
     Response 200 (Best_clients [\<lparr>entry_id = 1, fullName = ''Harry Potter'', entry_paid = 500\<rparr>])"
  using best_clients_groups_by_price by simp

end
